theory Spec2Isabelle
  imports Complex_Main
begin

section \<open>Tensors, specs and errors\<close>

text \<open>
  The two modules are written against TensorFlow. A tensor is modelled by its dtype, its
  static shape and its elements in row-major order; the elements are real numbers, so the
  arithmetic below is exact (rounding and overflow of the machine formats are not part of
  the model). A \<open>TensorSpec\<close> is a dtype and a shape; a tensor extends it by the
  elements, and a \<open>BoundedTensorSpec\<close> extends it by the arrays \<open>minimum\<close> and
  \<open>maximum\<close>.
\<close>

datatype dtype = float32 | float64 | int32 | int64

record tensor_spec =
  dtype :: dtype
  shape :: "nat list"

record tensor = tensor_spec +
  vals :: "real list"

record bounded_tensor_spec = tensor_spec +
  minimum :: tensor
  maximum :: tensor

definition num_elements :: "nat list \<Rightarrow> nat" where
  "num_elements s = prod_list s"

definition well_shaped :: "tensor \<Rightarrow> bool" where
  "well_shaped t = (length (vals t) = num_elements (shape t))"

text \<open>
  Exceptions are values, named by their Python class, whoever raises them: the modules
  themselves (by \<open>raise\<close>, by an attribute access, by a call, by indexing, by
  \<open>assert\<close>), a Keras layer or initialiser (\<open>ValueError\<close>, \<open>TypeError\<close>), or an
  operation of TensorFlow that rejects the shapes of its operands
  (\<open>InvalidArgumentError\<close>, as in eager execution).
\<close>

datatype error =
    ValueError string
  | AttributeError string
  | TypeError string
  | IndexError
  | AssertionError
  | InvalidArgumentError string

definition on_success :: "'e + 'a \<Rightarrow> ('a \<Rightarrow> 'e + 'b) \<Rightarrow> 'e + 'b" where
  "on_success r f = (case r of Inl e \<Rightarrow> Inl e | Inr x \<Rightarrow> f x)"

definition is_floating :: "dtype \<Rightarrow> bool" where
  "is_floating d = (d = float32 \<or> d = float64)"

text \<open>
  A nest is what \<open>tf.nest\<close> walks: a leaf, or a list, tuple or dict of nests.
  \<open>tf.nest.flatten\<close> lists the leaves.
\<close>

datatype 'a nest = Leaf 'a | Nest "'a nest list"

fun nest_flatten :: "'a nest \<Rightarrow> 'a list" where
  "nest_flatten (Leaf x) = [x]"
| "nest_flatten (Nest xs) = concat (map nest_flatten xs)"

section \<open>Effects: the layers created and applied\<close>

text \<open>
  Creating a Keras layer and applying one are effects. A computation returns the events it
  caused, in order, with its result or the exception that stopped it.
\<close>

datatype event = Created string | Applied string

type_synonym 'a effect = "event list \<times> (error + 'a)"

definition ret :: "'a \<Rightarrow> 'a effect" where
  "ret x = ([], Inr x)"

definition raise :: "error \<Rightarrow> 'a effect" where
  "raise e = ([], Inl e)"

definition lift :: "error + 'a \<Rightarrow> 'a effect" where
  "lift r = ([], r)"

definition and_then :: "'a effect \<Rightarrow> ('a \<Rightarrow> 'b effect) \<Rightarrow> 'b effect" where
  "and_then m f =
     (case m of
        (es, Inl e) \<Rightarrow> (es, Inl e)
      | (es, Inr x) \<Rightarrow> (case f x of (es', r) \<Rightarrow> (es @ es', r)))"

section \<open>Layers\<close>

text \<open>
  A layer has a name and a bias variable; a dense layer adds its number of units, its
  activation and its kernel variable. A Keras layer creates its variables for the feature
  width of the tensor it is first applied to. The bias is therefore an indexed family, and
  the kernel is given for the kernel shape (feature width, units): its entries, or the
  failure of the initialiser for that shape.
\<close>

type_synonym kernel_variable = "nat \<Rightarrow> nat \<Rightarrow> error + (nat \<Rightarrow> nat \<Rightarrow> real)"

record layer =
  layer_name :: string
  bias :: "nat \<Rightarrow> real"

record dense = layer +
  units :: nat
  activation :: "(tensor \<Rightarrow> tensor) option"
  kernel :: kernel_variable

definition Zeros :: "nat \<Rightarrow> real" where
  "Zeros = (\<lambda>_. 0)"

definition Constant :: "real \<Rightarrow> nat \<Rightarrow> real" where
  "Constant c = (\<lambda>_. c)"

definition ones :: "nat \<Rightarrow> real" where
  "ones = (\<lambda>_. 1)"

text \<open>
  \<open>tf.compat.v1.initializers.constant(value, verify_shape=True)\<close> for a matrix given
  by its rows: the initialiser fails unless the variable has the shape of the matrix.
\<close>

definition constant_verify_shape :: "real list list \<Rightarrow> kernel_variable" where
  "constant_verify_shape rows d n =
     (if length rows = d \<and> list_all (\<lambda>r. length r = n) rows
      then Inr (\<lambda>i j. rows ! i ! j)
      else Inl (TypeError ''Expected Tensor's shape''))"

definition Dense ::
  "nat \<Rightarrow> (tensor \<Rightarrow> tensor) option \<Rightarrow> kernel_variable \<Rightarrow> (nat \<Rightarrow> real) \<Rightarrow> string
     \<Rightarrow> dense effect" where
  "Dense n act kernel_initializer bias_initializer nm =
     ([Created nm],
      Inr \<lparr>layer_name = nm, bias = bias_initializer, units = n, activation = act,
           kernel = kernel_initializer\<rparr>)"

definition BiasLayer :: "(nat \<Rightarrow> real) \<Rightarrow> layer effect" where
  "BiasLayer bias_initializer =
     ([Created ''bias_layer''], Inr \<lparr>layer_name = ''bias_layer'', bias = bias_initializer\<rparr>)"

section \<open>Operations of the framework\<close>

text \<open>
  Broadcasting aligns two shapes at their last dimension; the functions below work on
  reversed shapes (innermost dimension first). \<open>broadcast_shape\<close> is the shape of the
  result, and \<open>source_index ds ts i\<close> is the position, in an operand of shape \<open>ds\<close>, of
  the element that the position \<open>i\<close> of a result of shape \<open>ts\<close> reads.
\<close>

fun broadcast_shape :: "nat list \<Rightarrow> nat list \<Rightarrow> nat list option" where
  "broadcast_shape [] bs = Some bs"
| "broadcast_shape (a # as) [] = Some (a # as)"
| "broadcast_shape (a # as) (b # bs) =
     (if a = b \<or> b = 1 then map_option ((#) a) (broadcast_shape as bs)
      else if a = 1 then map_option ((#) b) (broadcast_shape as bs)
      else None)"

fun source_index :: "nat list \<Rightarrow> nat list \<Rightarrow> nat \<Rightarrow> nat" where
  "source_index [] ts i = 0"
| "source_index (d # ds) [] i = 0"
| "source_index (d # ds) (t # ts) i =
     (if d = 1 then 0 else i mod t) + d * source_index ds ts (i div t)"

definition broadcast_to :: "nat list \<Rightarrow> tensor \<Rightarrow> real list" where
  "broadcast_to rs t = map (\<lambda>i. vals t ! source_index (rev (shape t)) rs i) [0..<prod_list rs]"

text \<open>
  An elementwise binary operation with broadcasting (\<open>+\<close>, \<open>-\<close>, \<open>*\<close> on arrays and
  tensors). The result takes the dtype of the right operand: where a NumPy array meets a
  tensor below, the tensor stands on the right and the framework converts the array to
  the tensor's dtype.
\<close>

definition elementwise :: "(real \<Rightarrow> real \<Rightarrow> real) \<Rightarrow> tensor \<Rightarrow> tensor \<Rightarrow> error + tensor" where
  "elementwise f a b =
     (case broadcast_shape (rev (shape a)) (rev (shape b)) of
        None \<Rightarrow> Inl (InvalidArgumentError ''Incompatible shapes'')
      | Some rs \<Rightarrow>
          Inr \<lparr>dtype = dtype b, shape = rev rs,
               vals = map2 f (broadcast_to rs a) (broadcast_to rs b)\<rparr>)"

definition divide_by :: "tensor \<Rightarrow> real \<Rightarrow> tensor" where
  "divide_by t c = t\<lparr>vals := map (\<lambda>x. x / c) (vals t)\<rparr>"

text \<open>
  \<open>tf.tanh\<close> is defined on floating tensors, which is what the networks below apply
  it to; the model applies \<open>tanh\<close> to the elements whatever the dtype.
\<close>

definition tf_tanh :: "tensor \<Rightarrow> tensor" where
  "tf_tanh t = t\<lparr>vals := map tanh (vals t)\<rparr>"

definition softplus :: "tensor \<Rightarrow> error + tensor" where
  "softplus t = Inr (t\<lparr>vals := map (\<lambda>x. ln (1 + exp x)) (vals t)\<rparr>)"

definition tf_zeros_like :: "tensor \<Rightarrow> tensor" where
  "tf_zeros_like t = t\<lparr>vals := map (\<lambda>_. 0) (vals t)\<rparr>"

text \<open>
  \<open>tf.cast\<close>: a cast to an integer dtype truncates towards zero; between the other
  dtypes the (real) elements stay as they are.
\<close>

definition cast_element :: "dtype \<Rightarrow> real \<Rightarrow> real" where
  "cast_element d x =
     (if d = int32 \<or> d = int64
      then (if 0 \<le> x then of_int \<lfloor>x\<rfloor> else of_int \<lceil>x\<rceil>)
      else x)"

definition tf_cast :: "tensor \<Rightarrow> dtype \<Rightarrow> tensor" where
  "tf_cast t d =
     (if dtype t = d then t else t\<lparr>dtype := d, vals := map (cast_element d) (vals t)\<rparr>)"

text \<open>
  \<open>tf.reshape\<close>, as its kernel computes the shape: the target may hold one \<open>-1\<close>,
  the dimension to infer. The inferred dimension is the number of elements divided by the
  product of the given sizes; a size of zero is left out of that product, and then so are
  the zero dimensions of the tensor. The reshape fails when the sizes are invalid, when
  the division leaves a remainder, or when the new shape has another number of elements.
\<close>

definition tf_reshape :: "tensor \<Rightarrow> int list \<Rightarrow> error + tensor" where
  "tf_reshape t target =
     (let sizes_has_zero = list_ex (\<lambda>d. d = 0) target;
          product = prod_list (map nat (filter (\<lambda>d. 0 < d) target));
          input_num = prod_list (filter (\<lambda>d. 0 < d \<or> \<not> sizes_has_zero) (shape t));
          input_has_zero = (sizes_has_zero \<and> list_ex (\<lambda>d. d = 0) (shape t));
          missing = input_num div product;
          new_shape = map (\<lambda>d. if d = - 1 then missing else nat d) target
      in if list_ex (\<lambda>d. d < - 1) target \<or> 1 < length (filter (\<lambda>d. d = - 1) target)
         then Inl (InvalidArgumentError ''reshape: invalid sizes'')
         else if list_ex (\<lambda>d. d = - 1) target \<and> \<not> input_has_zero
                 \<and> product * missing \<noteq> input_num
         then Inl (InvalidArgumentError ''reshape: not a multiple'')
         else if prod_list new_shape \<noteq> num_elements (shape t)
         then Inl (InvalidArgumentError ''reshape: number of elements'')
         else Inr (t\<lparr>shape := new_shape\<rparr>))"

text \<open>
  Applying a dense layer: the tensor needs a batch axis and a feature axis, or the layer
  raises \<open>ValueError\<close>; every row \<open>x\<close> along the last axis becomes
  \<open>x \<cdot> kernel + bias\<close>, and the activation, when there is one, is applied to the result.
  A Keras layer computes in its own dtype, \<open>float32\<close> when none is given: the input
  is cast to it and the result is a \<open>float32\<close> tensor.
\<close>

definition dense_row :: "(nat \<Rightarrow> nat \<Rightarrow> real) \<Rightarrow> (nat \<Rightarrow> real) \<Rightarrow> nat \<Rightarrow> real list \<Rightarrow> real list" where
  "dense_row k b n x =
     map (\<lambda>j. sum_list (map (\<lambda>i. x ! i * k i j) [0..<length x]) + b j) [0..<n]"

definition dense_call :: "dense \<Rightarrow> tensor \<Rightarrow> error + tensor" where
  "dense_call l t =
     (if length (shape t) < 2
      then Inl (ValueError ''Input 0 of layer is incompatible with the layer: expected min_ndim=2'')
      else
        let d = last (shape t) in
        on_success (kernel l d (units l)) (\<lambda>k.
          let outputs =
                \<lparr>dtype = float32,
                 shape = butlast (shape t) @ [units l],
                 vals = concat (map (\<lambda>r. dense_row k (bias l) (units l)
                                           (take d (drop (r * d) (vals t))))
                                  [0..<prod_list (butlast (shape t))])\<rparr>
          in Inr (case activation l of None \<Rightarrow> outputs | Some f \<Rightarrow> f outputs)))"

definition apply_dense :: "dense \<Rightarrow> tensor \<Rightarrow> tensor effect" where
  "apply_dense l t = ([Applied (layer_name l)], dense_call l t)"

text \<open>
  Modelled from the spec: \<open>tf_agents.networks.bias_layer.BiasLayer\<close> is not among the
  sources. It is taken as the layer that adds its bias vector along the last axis (to a
  tensor of rank one: one bias, added to every element).
\<close>

definition bias_layer_call :: "layer \<Rightarrow> tensor \<Rightarrow> error + tensor" where
  "bias_layer_call l t =
     (if shape t = [] then Inl (InvalidArgumentError ''bias_add'')
      else
        let d = (if length (shape t) = 1 then 1 else last (shape t)) in
        Inr (t\<lparr>vals := map (\<lambda>i. vals t ! i + bias l (i mod d)) [0..<length (vals t)]\<rparr>))"

definition apply_bias :: "layer \<Rightarrow> tensor \<Rightarrow> tensor effect" where
  "apply_bias l t = ([Applied (layer_name l)], bias_layer_call l t)"

text \<open>
  Modelled from the spec: \<open>tf_agents.networks.utils.BatchSquash\<close> is not among the
  sources. It is taken as the helper that merges the leading \<open>batch_dims\<close> dimensions
  of a tensor into one (\<open>flatten\<close>, which remembers the shape it was given) and
  restores them (\<open>unflatten\<close>); with one batch dimension both leave the tensor as it is.
\<close>

record batch_squash =
  batch_dims :: nat
  original_tensor_shape :: "nat list option"

definition BatchSquash :: "nat \<Rightarrow> batch_squash" where
  "BatchSquash k = \<lparr>batch_dims = k, original_tensor_shape = None\<rparr>"

definition flatten :: "batch_squash \<Rightarrow> tensor \<Rightarrow> error + batch_squash \<times> tensor" where
  "flatten bs t =
     (if batch_dims bs = 1 then Inr (bs, t)
      else on_success (tf_reshape t (- 1 # map int (drop (batch_dims bs) (shape t))))
             (\<lambda>t'. Inr (bs\<lparr>original_tensor_shape := Some (shape t)\<rparr>, t')))"

definition unflatten :: "batch_squash \<Rightarrow> tensor \<Rightarrow> error + tensor" where
  "unflatten bs t =
     (if batch_dims bs = 1 then Inr t
      else case original_tensor_shape bs of
             None \<Rightarrow> Inl (ValueError ''Please call flatten before unflatten.'')
           | Some s \<Rightarrow> tf_reshape t (map int (take (batch_dims bs) s @ tl (shape t))))"

section \<open>tanh_squash_to_spec\<close>

definition tanh_squash_to_spec :: "tensor \<Rightarrow> bounded_tensor_spec \<Rightarrow> error + tensor" where
  "tanh_squash_to_spec inputs spec =
     on_success (elementwise (+) (maximum spec) (minimum spec)) (\<lambda>s.
     let means = divide_by s 2.0 in
     on_success (elementwise (-) (maximum spec) (minimum spec)) (\<lambda>d.
     let magnitudes = divide_by d 2.0 in
     on_success (elementwise (*) magnitudes (tf_tanh inputs)) (\<lambda>p.
     elementwise (+) means p)))"

text \<open>
  The formula of the squashing on one element, in exact arithmetic, and the shape the
  bounds and the input broadcast to (reversed), when they do.
\<close>

definition squash_formula :: "real \<Rightarrow> real \<Rightarrow> real \<Rightarrow> real" where
  "squash_formula lo hi x = (hi + lo) / 2 + ((hi - lo) / 2) * tanh x"

definition squash_shape :: "bounded_tensor_spec \<Rightarrow> tensor \<Rightarrow> nat list option" where
  "squash_shape spec x =
     (case broadcast_shape (rev (shape (maximum spec))) (rev (shape (minimum spec))) of
        None \<Rightarrow> None
      | Some bs \<Rightarrow> broadcast_shape bs (rev (shape x)))"

text \<open>\<open>broadcasts_to ds ts\<close>: an operand of shape \<open>ds\<close> can be read at shape \<open>ts\<close>.\<close>

fun broadcasts_to :: "nat list \<Rightarrow> nat list \<Rightarrow> bool" where
  "broadcasts_to [] ts = True"
| "broadcasts_to (d # ds) [] = False"
| "broadcasts_to (d # ds) (t # ts) = ((d = t \<or> d = 1) \<and> broadcasts_to ds ts)"

section \<open>The distribution a projection network returns\<close>

datatype distribution =
    Normal tensor tensor
  | ScaledToSpec distribution bounded_tensor_spec

record distribution_spec =
  builder :: "tensor \<Rightarrow> tensor \<Rightarrow> distribution"
  input_params_spec :: "(string \<times> tensor_spec) list"
  spec_sample_spec :: bounded_tensor_spec

definition build_distribution :: "distribution_spec \<Rightarrow> tensor \<Rightarrow> tensor \<Rightarrow> distribution" where
  "build_distribution ds loc_t scale_t = builder ds loc_t scale_t"

section \<open>NormalProjectionNetwork: construction\<close>

text \<open>
  The transforms of the means and of the standard deviations are functions on tensors
  that the caller supplies, as \<open>tanh_squash_to_spec\<close> and \<open>tf.nn.softplus\<close> are;
  they return a tensor or raise.
\<close>

type_synonym transform = "tensor \<Rightarrow> error + tensor"

type_synonym spec_transform = "tensor \<Rightarrow> bounded_tensor_spec \<Rightarrow> error + tensor"

record normal_projection_network =
  scale_distribution :: bool
  output_spec :: distribution_spec
  network_name :: string
  sample_spec :: bounded_tensor_spec
  mean_transform :: "spec_transform option"
  std_transform :: "transform option"
  state_dependent_std :: bool
  means_projection_layer :: dense
  stddev_projection_layer :: "dense option"
  bias_layer :: "layer option"

text \<open>
  Reading \<open>sample_spec.shape\<close> or \<open>sample_spec.dtype\<close> needs a spec: on a list,
  tuple or dict Python raises \<open>AttributeError\<close>.
\<close>

fun the_spec :: "bounded_tensor_spec nest \<Rightarrow> error + bounded_tensor_spec" where
  "the_spec (Leaf s) = Inr s"
| "the_spec (Nest xs) = Inl (AttributeError ''shape'')"

definition distribution_builder ::
  "bool \<Rightarrow> bounded_tensor_spec \<Rightarrow> tensor \<Rightarrow> tensor \<Rightarrow> distribution" where
  "distribution_builder scale_dist s loc_t scale_t =
     (let d = Normal loc_t scale_t in if scale_dist then ScaledToSpec d s else d)"

definition output_distribution_spec ::
  "bool \<Rightarrow> bounded_tensor_spec nest \<Rightarrow> error + distribution_spec" where
  "output_distribution_spec scale_dist smp =
     (case the_spec smp of
        Inl e \<Rightarrow> Inl e
      | Inr s \<Rightarrow>
          (let param = \<lparr>dtype = dtype s, shape = shape s\<rparr> in
           Inr \<lparr>builder = distribution_builder scale_dist s,
                input_params_spec = [(''loc'', param), (''scale'', param)],
                spec_sample_spec = s\<rparr>))"

text \<open>
  The \<open>VarianceScaling\<close> initialiser of Keras raises \<open>ValueError\<close> when it is
  constructed with a scale that is not positive. \<open>draw\<close> stands for its random
  number generator: the kernel entries it draws, given the scale, the layer's name and the
  kernel's shape.
\<close>

type_synonym initializer = "string \<Rightarrow> nat \<Rightarrow> nat \<Rightarrow> nat \<Rightarrow> nat \<Rightarrow> real"

definition VarianceScaling :: "(real \<Rightarrow> initializer) \<Rightarrow> real \<Rightarrow> error + initializer" where
  "VarianceScaling draw scale =
     (if scale \<le> 0 then Inl (ValueError ''scale must be positive float.'')
      else Inr (draw scale))"

text \<open>
  The constructor. The arguments of \<open>Dense\<close> are evaluated before the layer is
  created, so the initialiser of the kernel is constructed first.
\<close>

definition NormalProjectionNetwork_init ::
  "bounded_tensor_spec nest \<Rightarrow> (tensor \<Rightarrow> tensor) option \<Rightarrow> real \<Rightarrow> real
     \<Rightarrow> spec_transform option \<Rightarrow> transform option \<Rightarrow> bool \<Rightarrow> bool \<Rightarrow> string
     \<Rightarrow> (real \<Rightarrow> initializer)
     \<Rightarrow> normal_projection_network effect" where
  "NormalProjectionNetwork_init smp activation_fn init_means_output_factor
       std_bias_initializer_value mean_tr std_tr state_dep scale_dist nm draw =
     (if length (nest_flatten smp) \<noteq> 1
      then raise (ValueError ''Normal Projection network only supports single spec samples.'')
      else
        and_then (lift (output_distribution_spec scale_dist smp)) (\<lambda>out_spec.
        and_then (lift (the_spec smp)) (\<lambda>s.
        and_then (lift (VarianceScaling draw init_means_output_factor)) (\<lambda>means_init.
        and_then (Dense (num_elements (shape s)) activation_fn
                    (\<lambda>d n. Inr (means_init ''means_projection_layer'' d n))
                    Zeros ''means_projection_layer'') (\<lambda>means_layer.
        and_then
          (if state_dep
           then and_then (lift (VarianceScaling draw init_means_output_factor)) (\<lambda>stddev_init.
                and_then (Dense (num_elements (shape s)) activation_fn
                            (\<lambda>d n. Inr (stddev_init ''stddev_projection_layer'' d n))
                            (Constant std_bias_initializer_value) ''stddev_projection_layer'')
                  (\<lambda>l. ret (Some l, None)))
           else and_then (BiasLayer (Constant std_bias_initializer_value))
                  (\<lambda>b. ret (None, Some b))) (\<lambda>(stddev_layer, b).
        ret \<lparr>scale_distribution = scale_dist, output_spec = out_spec, network_name = nm,
             sample_spec = s, mean_transform = mean_tr, std_transform = std_tr,
             state_dependent_std = state_dep, means_projection_layer = means_layer,
             stddev_projection_layer = stddev_layer, bias_layer = b\<rparr>))))))"

section \<open>NormalProjectionNetwork: call\<close>

definition call :: "normal_projection_network \<Rightarrow> tensor \<Rightarrow> nat \<Rightarrow> distribution effect" where
  "call net inputs outer_rank =
     (if dtype inputs \<noteq> dtype (sample_spec net)
      then raise (ValueError
             ''Inputs to NormalProjectionNetwork must match the sample_spec.dtype.'')
      else
        and_then (lift (flatten (BatchSquash outer_rank) inputs)) (\<lambda>(squash, inputs).
        and_then (apply_dense (means_projection_layer net) inputs) (\<lambda>means.
        and_then (lift (tf_reshape means (- 1 # map int (shape (sample_spec net)))))
          (\<lambda>means.
        and_then
          (case mean_transform net of
             Some f \<Rightarrow> if \<not> scale_distribution net
                       then lift (f means (sample_spec net))
                       else ret means
           | None \<Rightarrow> ret means) (\<lambda>means.
        let means = tf_cast means (dtype (sample_spec net)) in
        and_then
          (if state_dependent_std net
           then (case stddev_projection_layer net of
                   None \<Rightarrow> raise (TypeError ''NoneType object is not callable'')
                 | Some l \<Rightarrow> apply_dense l inputs)
           else (case bias_layer net of
                   None \<Rightarrow> raise (AttributeError ''_bias'')
                 | Some l \<Rightarrow>
                     and_then (apply_bias l (tf_zeros_like means)) (\<lambda>stds.
                     lift (tf_reshape stds (- 1 # map int (shape (sample_spec net))))))) (\<lambda>stds.
        and_then
          (case std_transform net of
             Some f \<Rightarrow> lift (f stds)
           | None \<Rightarrow> ret stds) (\<lambda>stds.
        let stds = tf_cast stds (dtype (sample_spec net)) in
        and_then (lift (unflatten squash means)) (\<lambda>means.
        and_then (lift (unflatten squash stds)) (\<lambda>stds.
        ret (build_distribution (output_spec net) means stds))))))))))"

section \<open>The categorical networks of the agent's tests\<close>

record dummy_categorical_net =
  input_tensor_spec :: tensor_spec
  num_atoms :: nat
  num_actions :: nat
  dummy_layers :: "dense list"

definition weights_initializer :: "nat \<Rightarrow> real list list" where
  "weights_initializer n =
     [map real [0..<n] @ replicate n 1,
      replicate n 1 @ replicate n 1]"

definition DummyCategoricalNet_init :: "tensor_spec \<Rightarrow> nat \<Rightarrow> nat \<Rightarrow> dummy_categorical_net effect" where
  "DummyCategoricalNet_init spec n_atoms n_actions =
     and_then (Dense (n_actions * n_atoms) None
                 (constant_verify_shape (weights_initializer n_atoms)) ones ''dense'') (\<lambda>l.
     ret \<lparr>input_tensor_spec = spec, num_atoms = n_atoms, num_actions = n_actions,
          dummy_layers = [l]\<rparr>)"

fun apply_layers :: "dense list \<Rightarrow> tensor \<Rightarrow> tensor effect" where
  "apply_layers [] inputs = ret inputs"
| "apply_layers (l # ls) inputs = and_then (apply_dense l inputs) (apply_layers ls)"

definition DummyCategoricalNet_call ::
  "dummy_categorical_net \<Rightarrow> tensor \<Rightarrow> 'step \<Rightarrow> 'state \<Rightarrow> (tensor \<times> 'state) effect" where
  "DummyCategoricalNet_call net inputs unused_step_type network_state =
     (let inputs = tf_cast inputs float32 in
      and_then (apply_layers (dummy_layers net) inputs) (\<lambda>inputs.
      and_then (lift (tf_reshape inputs [- 1, int (num_actions net), int (num_atoms net)]))
        (\<lambda>logits.
      ret (logits, network_state))))"

text \<open>
  \<open>DummyCategoricalQRnnNetwork\<close> extends \<open>QRnnNetwork\<close>, which is not among the sources:
  the call of the parent class is a field of the network.
\<close>

record ('step, 'state) dummy_categorical_q_rnn_network =
  rnn_num_actions :: nat
  rnn_num_atoms :: nat
  super_call :: "tensor \<Rightarrow> 'step \<Rightarrow> 'state \<Rightarrow> (tensor \<times> 'state) effect"

definition DummyCategoricalQRnnNetwork_call ::
  "('step, 'state) dummy_categorical_q_rnn_network \<Rightarrow> tensor \<Rightarrow> 'step \<Rightarrow> 'state
     \<Rightarrow> (tensor \<times> 'state) effect" where
  "DummyCategoricalQRnnNetwork_call net observations step_type network_state =
     and_then (super_call net observations step_type network_state)
       (\<lambda>(logits, network_state).
     if shape logits = [] then raise IndexError
     else if last (shape logits) \<noteq> rnn_num_actions net * rnn_num_atoms net
     then raise AssertionError
     else
       let new_shape = butlast (shape logits) @ [rnn_num_actions net, rnn_num_atoms net] in
       and_then (lift (tf_reshape logits (map int new_shape))) (\<lambda>logits.
       ret (logits, network_state)))"

section \<open>The n-step targets of the agent\<close>













section \<open>Conditions used in the statements\<close>

text \<open>
  \<open>keeps_shape f s\<close>: on a well-shaped tensor of shape \<open>s\<close> the transform \<open>f\<close>
  returns a well-shaped tensor of the same shape, as an elementwise function does.
\<close>

definition keeps_shape :: "transform \<Rightarrow> nat list \<Rightarrow> bool" where
  "keeps_shape f s =
     (\<forall>t. shape t = s \<and> well_shaped t \<longrightarrow> (\<exists>t'. f t = Inr t' \<and> shape t' = s \<and> well_shaped t'))"

text \<open>
  \<open>built net\<close> is what the constructor establishes and training keeps: the layers
  have as many units as the sample spec has elements, their kernels exist for every
  feature width, the layer for the standard deviations is the one that
  \<open>state_dependent_std\<close> selects, and the output spec builds the distribution with
  \<open>distribution_builder\<close>. \<open>transforms_keep_shape net b\<close> says that the activation
  and the two transforms keep the shapes they meet on a batch of \<open>b\<close> rows.
\<close>

definition built :: "normal_projection_network \<Rightarrow> bool" where
  "built net =
     (units (means_projection_layer net) = num_elements (shape (sample_spec net))
      \<and> (\<forall>d n. \<exists>k. kernel (means_projection_layer net) d n = Inr k)
      \<and> (if state_dependent_std net
         then (case stddev_projection_layer net of
                 None \<Rightarrow> False
               | Some l \<Rightarrow> units l = num_elements (shape (sample_spec net))
                            \<and> (\<forall>d n. \<exists>k. kernel l d n = Inr k))
         else bias_layer net \<noteq> None)
      \<and> builder (output_spec net)
          = distribution_builder (scale_distribution net) (sample_spec net))"

definition transforms_keep_shape :: "normal_projection_network \<Rightarrow> nat \<Rightarrow> bool" where
  "transforms_keep_shape net b =
     (let s = shape (sample_spec net); n = num_elements s in
      (case activation (means_projection_layer net) of
         None \<Rightarrow> True
       | Some a \<Rightarrow> keeps_shape (\<lambda>t. Inr (a t)) [b, n])
      \<and> (case mean_transform net of
            None \<Rightarrow> True
          | Some f \<Rightarrow> scale_distribution net \<or> keeps_shape (\<lambda>t. f t (sample_spec net)) (b # s))
      \<and> (case std_transform net of
            None \<Rightarrow> True
          | Some g \<Rightarrow> keeps_shape g (if state_dependent_std net then [b, n] else b # s))
      \<and> (case stddev_projection_layer net of
            None \<Rightarrow> True
          | Some l \<Rightarrow> (case activation l of
                         None \<Rightarrow> True
                       | Some a \<Rightarrow> keeps_shape (\<lambda>t. Inr (a t)) [b, n])))"

definition bias_tensor :: "layer \<Rightarrow> dtype \<Rightarrow> nat list \<Rightarrow> tensor" where
  "bias_tensor l dt s =
     \<lparr>dtype = dt, shape = s,
      vals = map (\<lambda>i. bias l (i mod (if length s = 1 then 1 else last s)))
               [0..<num_elements s]\<rparr>"

text \<open>The standard deviations of the distribution that \<open>call\<close> returns.\<close>

fun normal_scale :: "distribution \<Rightarrow> tensor" where
  "normal_scale (Normal loc_t scale_t) = scale_t"
| "normal_scale (ScaledToSpec d s) = normal_scale d"

text \<open>
  The state of a \<open>BatchSquash\<close> after \<open>flatten\<close> on a tensor of shape \<open>s\<close> with the
  batch dimensions \<open>outer\<close>.
\<close>

definition squashed :: "nat list \<Rightarrow> nat list \<Rightarrow> batch_squash" where
  "squashed outer s =
     (if length outer = 1 then BatchSquash 1
      else \<lparr>batch_dims = length outer, original_tensor_shape = Some s\<rparr>)"

text \<open>
  The logits that the weights of \<open>DummyCategoricalNet\<close> give for one observation
  \<open>(x\<^sub>0, x\<^sub>1)\<close>: atom \<open>j\<close> of the first action gets \<open>x\<^sub>0 * j + x\<^sub>1 + 1\<close>, every atom
  of the second action gets \<open>x\<^sub>0 + x\<^sub>1 + 1\<close>.
\<close>

definition dummy_logits :: "nat \<Rightarrow> real \<Rightarrow> real \<Rightarrow> real list" where
  "dummy_logits n x0 x1 =
     map (\<lambda>j. x0 * real j + x1 + 1) [0..<n] @ replicate n (x0 + x1 + 1)"

section \<open>Example values\<close>

text \<open>
  A scalar action spec with bounds \<open>-1\<close> and \<open>1\<close>, a spec of two components, a batch
  of two feature vectors, and an initialiser that fills a kernel with its scale.
\<close>

definition scalar :: "real \<Rightarrow> tensor" where
  "scalar c = \<lparr>dtype = float32, shape = [], vals = [c]\<rparr>"

definition unit_spec :: bounded_tensor_spec where
  "unit_spec = \<lparr>dtype = float32, shape = [], minimum = scalar (- 1), maximum = scalar 1\<rparr>"

definition pair_spec :: bounded_tensor_spec where
  "pair_spec = \<lparr>dtype = float32, shape = [2], minimum = scalar (- 1), maximum = scalar 1\<rparr>"

definition example_inputs :: tensor where
  "example_inputs = \<lparr>dtype = float32, shape = [2, 2], vals = [1, 2, 3, 4]\<rparr>"

definition example_scaling :: "real \<Rightarrow> string \<Rightarrow> nat \<Rightarrow> nat \<Rightarrow> nat \<Rightarrow> nat \<Rightarrow> real" where
  "example_scaling c nm d n i j = c"

definition int_inputs :: tensor where
  "int_inputs = \<lparr>dtype = int32, shape = [2, 2], vals = [1, 2, 3, 4]\<rparr>"

definition vector_inputs :: tensor where
  "vector_inputs = \<lparr>dtype = float32, shape = [2], vals = [1, 2]\<rparr>"

definition example_network :: normal_projection_network where
  "example_network =
     \<lparr>scale_distribution = False,
      output_spec =
        \<lparr>builder = distribution_builder False pair_spec,
         input_params_spec = [(''loc'', \<lparr>dtype = float32, shape = [2]\<rparr>),
                              (''scale'', \<lparr>dtype = float32, shape = [2]\<rparr>)],
         spec_sample_spec = pair_spec\<rparr>,
      network_name = ''NormalProjectionNetwork'',
      sample_spec = pair_spec,
      mean_transform = Some tanh_squash_to_spec,
      std_transform = Some softplus,
      state_dependent_std = False,
      means_projection_layer =
        \<lparr>layer_name = ''means_projection_layer'', bias = Zeros, units = 2, activation = None,
         kernel = (\<lambda>d n. Inr (example_scaling 0.1 ''means_projection_layer'' d n))\<rparr>,
      stddev_projection_layer = None,
      bias_layer = Some \<lparr>layer_name = ''bias_layer'', bias = Constant 0.0\<rparr>\<rparr>"

definition other_inputs :: tensor where
  "other_inputs = \<lparr>dtype = float32, shape = [2, 2], vals = [5, 6, 7, 8]\<rparr>"

definition obs_spec :: tensor_spec where
  "obs_spec = \<lparr>dtype = float32, shape = [2]\<rparr>"

definition small_dummy_net :: dummy_categorical_net where
  "small_dummy_net =
     \<lparr>input_tensor_spec = obs_spec, num_atoms = 3, num_actions = 2,
      dummy_layers =
        [\<lparr>layer_name = ''dense'', bias = ones, units = 2 * 3, activation = None,
          kernel = constant_verify_shape (weights_initializer 3)\<rparr>]\<rparr>"

definition q_rnn_logits :: tensor where
  "q_rnn_logits = \<lparr>dtype = float32, shape = [2, 6], vals = replicate 12 0\<rparr>"

definition example_q_rnn :: "(unit, unit) dummy_categorical_q_rnn_network" where
  "example_q_rnn =
     \<lparr>rnn_num_actions = 2, rnn_num_atoms = 3,
      super_call = (\<lambda>observations step_type network_state.
         ([Applied ''q_rnn_network''],
          Inr (\<lparr>dtype = float32, shape = [2, 6], vals = replicate 12 0\<rparr>, network_state)))\<rparr>"

section \<open>Properties\<close>

subsection \<open>The effect combinators\<close>

lemma and_then_ret [simp]: "and_then (ret x) f = f x"
  by (cases "f x") (simp add: and_then_def ret_def)

lemma and_then_raise [simp]: "and_then (raise e) f = raise e"
  by (simp add: and_then_def raise_def)

lemma and_then_lift_Inr [simp]: "and_then (lift (Inr x)) f = f x"
  by (cases "f x") (simp add: and_then_def lift_def)

lemma and_then_lift_Inl [simp]: "and_then (lift (Inl e)) f = raise e"
  by (simp add: and_then_def lift_def raise_def)

lemma and_then_events: "and_then (es, Inr x) f = (es @ fst (f x), snd (f x))"
  by (simp add: and_then_def split: prod.splits)

lemma and_then_Inl: "and_then (es, Inl e) f = (es, Inl e)"
  by (simp add: and_then_def)

subsection \<open>Broadcasting\<close>

lemma broadcast_shape_broadcasts:
  "broadcast_shape as bs = Some rs \<Longrightarrow> broadcasts_to as rs \<and> broadcasts_to bs rs"
proof (induction as bs arbitrary: rs rule: broadcast_shape.induct)
  case (1 bs)
  have "broadcasts_to xs xs" for xs :: "nat list" by (induction xs) auto
  with 1 show ?case by simp
next
  case (2 a as)
  have "broadcasts_to xs xs" for xs :: "nat list" by (induction xs) auto
  with 2 show ?case by (metis broadcast_shape.simps(2) broadcasts_to.simps(1) option.inject)
next
  case (3 a as b bs)
  then show ?case by (auto split: if_splits)
qed

lemma broadcasts_to_refl: "broadcasts_to xs xs"
  by (induction xs) auto

lemma broadcasts_to_shape: "broadcasts_to as bs \<Longrightarrow> broadcast_shape as bs = Some bs"
  by (induction as bs rule: broadcasts_to.induct) auto

lemma source_index_less:
  "broadcasts_to ds ts \<Longrightarrow> i < prod_list ts \<Longrightarrow> source_index ds ts i < prod_list ds"
proof (induction ds ts i rule: source_index.induct)
  case (3 d ds t ts i)
  from "3.prems" have bt: "broadcasts_to ds ts" and dt: "d = t \<or> d = 1" by auto
  from "3.prems" have tpos: "0 < t" and ppos: "0 < prod_list ts"
    by (auto simp: zero_less_mult_iff intro: gr0I)
  from "3.prems" tpos have "i div t < prod_list ts"
    by (simp add: less_mult_imp_div_less mult.commute)
  with "3.IH" bt have rest: "source_index ds ts (i div t) < prod_list ds" by simp
  define q where "q = source_index ds ts (i div t)"
  define r where "r = (if d = 1 then 0 else i mod t)"
  have rd: "r < d" using dt tpos by (auto simp: r_def)
  have "r + d * q < d * (q + 1)" using rd by simp
  also have "\<dots> \<le> d * prod_list ds" using rest unfolding q_def by (intro mult_le_mono2) simp
  finally show ?case by (simp add: q_def r_def)
qed simp_all

lemma source_index_compose:
  "broadcasts_to as bs \<Longrightarrow> broadcasts_to bs cs \<Longrightarrow> i < prod_list cs \<Longrightarrow>
     source_index as bs (source_index bs cs i) = source_index as cs i"
proof (induction as arbitrary: bs cs i)
  case Nil
  then show ?case by simp
next
  case (Cons a as)
  then obtain b bs' where bs: "bs = b # bs'" by (cases bs) auto
  with Cons.prems obtain c cs' where cs: "cs = c # cs'" by (cases cs) auto
  from Cons.prems bs cs have ab: "a = b \<or> a = 1" and bc: "b = c \<or> b = 1"
    and bt1: "broadcasts_to as bs'" and bt2: "broadcasts_to bs' cs'" by auto
  from Cons.prems cs have cpos: "0 < c" by (auto intro: gr0I)
  from Cons.prems cs cpos have idiv: "i div c < prod_list cs'"
    by (simp add: less_mult_imp_div_less mult.commute)
  define q where "q = source_index bs' cs' (i div c)"
  define r where "r = (if b = 1 then 0 else i mod c)"
  have rb: "r < b" using bc cpos by (auto simp: r_def)
  have split: "source_index bs cs i = r + b * q" by (simp add: bs cs q_def r_def)
  have m: "(r + b * q) mod b = r" using rb by simp
  have d: "(r + b * q) div b = q" using rb by simp
  have step: "source_index (a # as) bs (r + b * q) = (if a = 1 then 0 else r) + a * source_index as bs' q"
    unfolding bs source_index.simps m d ..
  have rest: "source_index as bs' q = source_index as cs' (i div c)"
    unfolding q_def using Cons.IH[OF bt1 bt2 idiv] .
  have digit: "(if a = 1 then 0 else r) = (if a = 1 then 0 else i mod c)"
    using ab by (auto simp: r_def)
  have "source_index (a # as) cs i = (if a = 1 then 0 else i mod c) + a * source_index as cs' (i div c)"
    unfolding cs source_index.simps ..
  then show ?case
    unfolding split step rest digit by simp
qed

lemma source_index_same: "i < prod_list ts \<Longrightarrow> source_index ts ts i = i"
proof (induction ts arbitrary: i)
  case Nil
  then show ?case by simp
next
  case (Cons t ts)
  then have tpos: "0 < t" by (auto intro: gr0I)
  with Cons.prems have "i div t < prod_list ts"
    by (simp add: less_mult_imp_div_less mult.commute)
  with Cons.IH have "source_index ts ts (i div t) = i div t" by simp
  moreover have "t = 1 \<Longrightarrow> i mod t = 0" by simp
  ultimately show ?case by (auto simp: mult.commute)
qed

lemma length_broadcast_to [simp]: "length (broadcast_to rs t) = prod_list rs"
  by (simp add: broadcast_to_def)

lemma nth_broadcast_to:
  "i < prod_list rs \<Longrightarrow> broadcast_to rs t ! i = vals t ! source_index (rev (shape t)) rs i"
  by (simp add: broadcast_to_def)

lemma elementwise_Inr:
  assumes "broadcast_shape (rev (shape a)) (rev (shape b)) = Some rs"
  shows "\<exists>r. elementwise f a b = Inr r \<and> shape r = rev rs \<and> dtype r = dtype b
           \<and> length (vals r) = prod_list rs
           \<and> (\<forall>i<prod_list rs. vals r ! i = f (broadcast_to rs a ! i) (broadcast_to rs b ! i))"
  using assms by (simp add: elementwise_def)

lemma tanh_squash_to_spec_vals:
  assumes wx: "well_shaped x" and wlo: "well_shaped (minimum spec)"
    and whi: "well_shaped (maximum spec)"
    and sh: "squash_shape spec x = Some rs"
  shows "\<exists>r. tanh_squash_to_spec x spec = Inr r \<and> shape r = rev rs \<and> dtype r = dtype x
           \<and> vals r = map (\<lambda>i. squash_formula (broadcast_to rs (minimum spec) ! i)
                                 (broadcast_to rs (maximum spec) ! i) (broadcast_to rs x ! i))
                          [0..<prod_list rs]"
proof -
  let ?hi = "maximum spec" and ?lo = "minimum spec"
  from sh obtain bs where bs: "broadcast_shape (rev (shape ?hi)) (rev (shape ?lo)) = Some bs"
    and rs: "broadcast_shape bs (rev (shape x)) = Some rs"
    by (auto simp: squash_shape_def split: option.splits)
  from broadcast_shape_broadcasts[OF bs]
  have hib: "broadcasts_to (rev (shape ?hi)) bs" and lob: "broadcasts_to (rev (shape ?lo)) bs"
    by auto
  from broadcast_shape_broadcasts[OF rs]
  have br: "broadcasts_to bs rs" and xr: "broadcasts_to (rev (shape x)) rs" by auto
  obtain s where s: "elementwise (+) ?hi ?lo = Inr s" "shape s = rev bs"
    "length (vals s) = prod_list bs"
    "\<forall>i<prod_list bs. vals s ! i = broadcast_to bs ?hi ! i + broadcast_to bs ?lo ! i"
    using elementwise_Inr[OF bs, of "(+)"] by blast
  obtain d where d: "elementwise (-) ?hi ?lo = Inr d" "shape d = rev bs"
    "length (vals d) = prod_list bs"
    "\<forall>i<prod_list bs. vals d ! i = broadcast_to bs ?hi ! i - broadcast_to bs ?lo ! i"
    using elementwise_Inr[OF bs, of "(-)"] by blast
  let ?means = "divide_by s 2" and ?mags = "divide_by d 2"
  have rs': "broadcast_shape (rev (shape ?mags)) (rev (shape (tf_tanh x))) = Some rs"
    using rs d(2) by (simp add: divide_by_def tf_tanh_def)
  obtain p where p: "elementwise (*) ?mags (tf_tanh x) = Inr p" "shape p = rev rs"
    "dtype p = dtype (tf_tanh x)" "length (vals p) = prod_list rs"
    "\<forall>i<prod_list rs. vals p ! i = broadcast_to rs ?mags ! i * broadcast_to rs (tf_tanh x) ! i"
    using elementwise_Inr[OF rs', of "(*)"] by blast
  have rs'': "broadcast_shape (rev (shape ?means)) (rev (shape p)) = Some rs"
    using br s(2) p(2) by (simp add: divide_by_def broadcasts_to_shape)
  obtain r where r: "elementwise (+) ?means p = Inr r" "shape r = rev rs"
    "dtype r = dtype p" "length (vals r) = prod_list rs"
    "\<forall>i<prod_list rs. vals r ! i = broadcast_to rs ?means ! i + broadcast_to rs p ! i"
    using elementwise_Inr[OF rs'', of "(+)"] by blast
  have run: "tanh_squash_to_spec x spec = Inr r"
    by (simp add: tanh_squash_to_spec_def on_success_def s(1) d(1) p(1) r(1) Let_def)
  have elem: "vals r ! i = squash_formula (broadcast_to rs ?lo ! i) (broadcast_to rs ?hi ! i)
                 (broadcast_to rs x ! i)" if i: "i < prod_list rs" for i
  proof -
    let ?j = "source_index bs rs i"
    have j: "?j < prod_list bs" using source_index_less[OF br i] .
    have hi_c: "source_index (rev (shape ?hi)) bs ?j = source_index (rev (shape ?hi)) rs i"
      using source_index_compose[OF hib br i] .
    have lo_c: "source_index (rev (shape ?lo)) bs ?j = source_index (rev (shape ?lo)) rs i"
      using source_index_compose[OF lob br i] .
    have kx: "source_index (rev (shape x)) rs i < length (vals x)"
      using source_index_less[OF xr i] wx by (simp add: well_shaped_def num_elements_def)
    have means_i: "broadcast_to rs ?means ! i
                     = (broadcast_to rs ?hi ! i + broadcast_to rs ?lo ! i) / 2"
      using i j s hi_c lo_c by (simp add: nth_broadcast_to divide_by_def)
    have mags_i: "broadcast_to rs ?mags ! i
                     = (broadcast_to rs ?hi ! i - broadcast_to rs ?lo ! i) / 2"
      using i j d hi_c lo_c by (simp add: nth_broadcast_to divide_by_def)
    have tanh_i: "broadcast_to rs (tf_tanh x) ! i = tanh (broadcast_to rs x ! i)"
      using i kx by (simp add: nth_broadcast_to tf_tanh_def)
    have p_i: "broadcast_to rs p ! i = vals p ! i"
      using i p(2) by (simp add: nth_broadcast_to source_index_same)
    show ?thesis
      using r(5) p(5) i by (simp add: means_i mags_i tanh_i p_i squash_formula_def)
  qed
  have "vals r = map (\<lambda>i. squash_formula (broadcast_to rs ?lo ! i) (broadcast_to rs ?hi ! i)
                        (broadcast_to rs x ! i)) [0..<prod_list rs]"
    by (rule nth_equalityI) (use r(4) elem in auto)
  moreover have "dtype r = dtype x" using r(3) p(3) by (simp add: tf_tanh_def)
  ultimately show ?thesis using run r(2) by blast
qed

subsection \<open>The constructor of NormalProjectionNetwork\<close>

lemmas init_defs =
  NormalProjectionNetwork_init_def raise_def output_distribution_spec_def Dense_def
  BiasLayer_def and_then_events and_then_Inl ret_def lift_def Let_def

lemma VarianceScaling_simps:
  "0 < c \<Longrightarrow> VarianceScaling draw c = Inr (draw c)"
  "c \<le> 0 \<Longrightarrow> VarianceScaling draw c = Inl (ValueError ''scale must be positive float.'')"
  by (simp_all add: VarianceScaling_def)

text \<open>
  C8, as the claim states it, fails twice. A nest that wraps exactly one spec (a list of
  one spec) has one component, passes the check, and the constructor then raises
  \<open>AttributeError\<close> when it reads \<open>sample_spec.shape\<close>: construction does not
  succeed. And with a single spec the constructor still raises \<open>ValueError\<close> when
  \<open>init_means_output_factor\<close> is not positive, from the initialiser of the kernel.
\<close>

theorem init_single_component_counterexample:
  "length (nest_flatten (Nest [Leaf unit_spec])) = 1
     \<and> snd (NormalProjectionNetwork_init (Nest [Leaf unit_spec]) None 0.1 0.0
              (Some tanh_squash_to_spec) (Some softplus) False False
              ''NormalProjectionNetwork'' example_scaling)
         = Inl (AttributeError ''shape'')
     \<and> length (nest_flatten (Leaf unit_spec)) = 1
     \<and> snd (NormalProjectionNetwork_init (Leaf unit_spec) None 0 0.0
              (Some tanh_squash_to_spec) (Some softplus) False False
              ''NormalProjectionNetwork'' example_scaling)
         = Inl (ValueError ''scale must be positive float.'')"
  by (simp add: init_defs VarianceScaling_simps)

text \<open>
  C8, amended. The constructor raises \<open>ValueError\<close> if and only if the flattened
  sample_spec does not have exactly one component, or sample_spec is one spec and
  \<open>init_means_output_factor\<close> is not positive; when the flattened sample_spec does not
  have exactly one component the error is that of the check, and whenever
  \<open>ValueError\<close> is raised no layer has been created. Construction succeeds if and only
  if sample_spec is itself one spec, not wrapped in a nest, and
  \<open>init_means_output_factor\<close> is positive.
\<close>

theorem init_ValueError_iff:
  "((\<exists>msg. snd (NormalProjectionNetwork_init smp act f v mt st sd sc nm vs)
              = Inl (ValueError msg))
      \<longleftrightarrow> length (nest_flatten smp) \<noteq> 1 \<or> ((\<exists>s. smp = Leaf s) \<and> f \<le> 0))
   \<and> (length (nest_flatten smp) \<noteq> 1
        \<longrightarrow> NormalProjectionNetwork_init smp act f v mt st sd sc nm vs
            = ([], Inl (ValueError
                 ''Normal Projection network only supports single spec samples.'')))
   \<and> ((\<exists>msg. snd (NormalProjectionNetwork_init smp act f v mt st sd sc nm vs)
               = Inl (ValueError msg))
        \<longrightarrow> fst (NormalProjectionNetwork_init smp act f v mt st sd sc nm vs) = [])
   \<and> ((\<exists>net. snd (NormalProjectionNetwork_init smp act f v mt st sd sc nm vs) = Inr net)
        \<longleftrightarrow> (\<exists>s. smp = Leaf s) \<and> 0 < f)"
proof (cases smp)
  case (Nest xs)
  then show ?thesis by (auto simp: init_defs)
next
  case (Leaf s)
  show ?thesis
  proof (cases "f \<le> 0")
    case True
    with Leaf show ?thesis by (simp add: init_defs VarianceScaling_simps)
  next
    case False
    then have "0 < f" by simp
    with Leaf show ?thesis
      by (cases sd) (simp_all add: init_defs VarianceScaling_simps)
  qed
qed

theorem init_ValueError_iff_witness:
  "length (nest_flatten (Nest [Leaf unit_spec, Leaf pair_spec])) \<noteq> 1
     \<and> NormalProjectionNetwork_init (Nest [Leaf unit_spec, Leaf pair_spec]) None 0.1 0.0
              (Some tanh_squash_to_spec) (Some softplus) False False
              ''NormalProjectionNetwork'' example_scaling
         = ([], Inl (ValueError
              ''Normal Projection network only supports single spec samples.''))
     \<and> (\<exists>msg. snd (NormalProjectionNetwork_init (Leaf pair_spec) None 0 0.0
                    (Some tanh_squash_to_spec) (Some softplus) False False
                    ''NormalProjectionNetwork'' example_scaling) = Inl (ValueError msg))
     \<and> fst (NormalProjectionNetwork_init (Leaf pair_spec) None 0 0.0
              (Some tanh_squash_to_spec) (Some softplus) False False
              ''NormalProjectionNetwork'' example_scaling) = []
     \<and> (\<exists>net. snd (NormalProjectionNetwork_init (Leaf pair_spec) None 0.1 0.0
                    (Some tanh_squash_to_spec) (Some softplus) False False
                    ''NormalProjectionNetwork'' example_scaling) = Inr net)"
  using
    init_ValueError_iff[of "Nest [Leaf unit_spec, Leaf pair_spec]" None "0.1" "0.0"
      "Some tanh_squash_to_spec" "Some softplus" False False "''NormalProjectionNetwork''"
      example_scaling]
    init_ValueError_iff[of "Leaf pair_spec" None "0" "0.0"
      "Some tanh_squash_to_spec" "Some softplus" False False "''NormalProjectionNetwork''"
      example_scaling]
    init_ValueError_iff[of "Leaf pair_spec" None "0.1" "0.0"
      "Some tanh_squash_to_spec" "Some softplus" False False "''NormalProjectionNetwork''"
      example_scaling]
  by simp

subsection \<open>Shapes along the call\<close>

lemma prod_list_pos:
  "0 < prod_list s \<Longrightarrow> x \<in> set s \<Longrightarrow> 0 < x" for s :: "nat list"
  by (induction s) auto

lemma reshape_infer:
  assumes "0 < prod_list s" and "num_elements (shape t) = b * prod_list s"
  shows "tf_reshape t (- 1 # map int s) = Inr (t\<lparr>shape := b # s\<rparr>)"
proof -
  have pos: "\<And>x. x \<in> set s \<Longrightarrow> 0 < x"
    using prod_list_pos[OF assms(1)] .
  have z: "\<not> list_ex (\<lambda>d. d = 0) (map int s)"
    using pos by (fastforce simp: list_ex_iff)
  have f1: "filter (\<lambda>d. 0 < d) (map int s) = map int s"
    using pos by (auto simp: filter_id_conv)
  have f2: "filter (\<lambda>d. d = - 1) (map int s) = []"
    by (induction s) auto
  have f3: "\<not> list_ex (\<lambda>d. d < - 1) (map int s)"
    by (induction s) auto
  have f4: "map ((\<lambda>d. if d = - 1 then c else nat d) \<circ> int) s = s" for c
    by (induction s) auto
  have f5: "map (nat \<circ> int) s = s" by (induction s) auto
  have f6: "prod_list (shape t) = b * prod_list s"
    using assms(2) by (simp add: num_elements_def)
  show ?thesis
    using assms by (simp add: tf_reshape_def Let_def z f1 f2 f3 f4 f5 f6 num_elements_def)
qed

lemma reshape_exact:
  assumes "num_elements (shape t) = prod_list s"
  shows "tf_reshape t (map int s) = Inr (t\<lparr>shape := s\<rparr>)"
proof -
  have f2: "filter (\<lambda>d. d = - 1) (map int s) = []"
    by (induction s) auto
  have f3: "\<not> list_ex (\<lambda>d. d < - 1) (map int s)"
    by (induction s) auto
  have f3': "\<not> list_ex (\<lambda>d. d = - 1) (map int s)"
    by (induction s) auto
  have f4: "map ((\<lambda>d. if d = - 1 then c else nat d) \<circ> int) s = s" for c
    by (induction s) auto
  show ?thesis
    using assms by (simp add: tf_reshape_def Let_def f2 f3 f3' f4)
qed

lemma flatten_batch:
  assumes "shape t = outer @ [d]" and "0 < d"
  shows "flatten (BatchSquash (length outer)) t
           = Inr (squashed outer (shape t), t\<lparr>shape := [prod_list outer, d]\<rparr>)"
proof (cases "length outer = 1")
  case True
  then obtain b where "outer = [b]" by (cases outer) auto
  with assms have "t\<lparr>shape := [prod_list outer, d]\<rparr> = t" by simp
  with True show ?thesis by (simp add: flatten_def BatchSquash_def squashed_def)
next
  case False
  have "tf_reshape t (- 1 # map int [d]) = Inr (t\<lparr>shape := prod_list outer # [d]\<rparr>)"
    by (rule reshape_infer) (use assms in \<open>simp_all add: num_elements_def\<close>)
  with False assms show ?thesis
    by (simp add: flatten_def BatchSquash_def squashed_def on_success_def)
qed

lemma unflatten_batch:
  assumes "shape u = prod_list outer # s"
  shows "unflatten (squashed outer (outer @ r)) u = Inr (u\<lparr>shape := outer @ s\<rparr>)"
proof (cases "length outer = 1")
  case True
  then obtain b where "outer = [b]" by (cases outer) auto
  with assms have "u\<lparr>shape := outer @ s\<rparr> = u" by simp
  with True show ?thesis by (simp add: unflatten_def BatchSquash_def squashed_def)
next
  case False
  have "tf_reshape u (map int (outer @ s)) = Inr (u\<lparr>shape := outer @ s\<rparr>)"
    by (rule reshape_exact) (use assms in \<open>simp add: num_elements_def\<close>)
  with False assms show ?thesis
    by (simp add: unflatten_def squashed_def)
qed

lemma length_dense_row [simp]: "length (dense_row k b n x) = n"
  by (simp add: dense_row_def)

lemma length_concat_rows:
  "length (concat (map (\<lambda>r. dense_row k b n (g r)) [0..<m])) = m * n"
  by (induction m) (simp_all add: algebra_simps)

lemma dense_call_batch:
  assumes "shape t = [b, d]" and "kernel l d (units l) = Inr k"
    and "case activation l of None \<Rightarrow> True | Some a \<Rightarrow> keeps_shape (\<lambda>t. Inr (a t)) [b, units l]"
  shows "\<exists>p. dense_call l t = Inr p \<and> shape p = [b, units l] \<and> well_shaped p"
proof -
  define out :: tensor where
    "out = \<lparr>dtype = float32,
            shape = [b, units l],
            vals = concat (map (\<lambda>r. dense_row k (bias l) (units l)
                                      (take d (drop (r * d) (vals t)))) [0..<b])\<rparr>"
  have sh: "shape out = [b, units l]" by (simp add: out_def)
  have ws: "well_shaped out"
    by (simp add: out_def well_shaped_def num_elements_def length_concat_rows)
  show ?thesis
  proof (cases "activation l")
    case None
    then have "dense_call l t = Inr out"
      using assms(1,2) by (simp add: dense_call_def on_success_def Let_def out_def)
    with sh ws show ?thesis by blast
  next
    case (Some a)
    then have run: "dense_call l t = Inr (a out)"
      using assms(1,2) by (simp add: dense_call_def on_success_def Let_def out_def)
    from assms(3) Some have "keeps_shape (\<lambda>t. Inr (a t)) [b, units l]" by simp
    with sh ws have "shape (a out) = [b, units l] \<and> well_shaped (a out)"
      unfolding keeps_shape_def by fastforce
    with run show ?thesis by blast
  qed
qed

lemma snd_and_then:
  "snd (and_then m f) = (case snd m of Inl e \<Rightarrow> Inl e | Inr x \<Rightarrow> snd (f x))"
  by (cases m; cases "snd m") (auto simp: and_then_def split: prod.splits)

lemma snd_simps [simp]:
  "snd (ret x) = Inr x" "snd (lift r) = r" "snd (raise e) = Inl e"
  "snd (apply_dense l t) = (dense_call l t)"
  "snd (apply_bias b t) = (bias_layer_call b t)"
  by (simp_all add: ret_def lift_def raise_def apply_dense_def apply_bias_def)

lemma tf_cast_simps [simp]:
  "shape (tf_cast t d) = shape t" "dtype (tf_cast t d) = d"
  "length (vals (tf_cast t d)) = length (vals t)"
  by (simp_all add: tf_cast_def)

lemma well_shaped_cast [simp]: "well_shaped (tf_cast t d) = well_shaped t"
  by (simp add: well_shaped_def)

lemma bias_call_zeros:
  assumes "shape c = b # s" and "well_shaped c" and "dtype c = dt"
  shows "bias_layer_call l (tf_zeros_like c) = Inr (bias_tensor l dt (b # s))"
proof -
  have len: "length (vals c) = num_elements (b # s)"
    using assms by (simp add: well_shaped_def)
  have "map (\<lambda>i. map (\<lambda>_. 0) (vals c) ! i + bias l (i mod k)) [0..<length (vals c)]
          = map (\<lambda>i. bias l (i mod k)) [0..<length (vals c)]" for k
    by (rule map_cong) auto
  then show ?thesis
    using assms len
    by (simp add: bias_layer_call_def tf_zeros_like_def bias_tensor_def Let_def)
qed

lemma well_shaped_reshaped:
  "well_shaped p \<Longrightarrow> shape p = [b, prod_list s] \<Longrightarrow> well_shaped (p\<lparr>shape := b # s\<rparr>)"
  by (simp add: well_shaped_def num_elements_def)

lemma keeps_shapeD:
  "keeps_shape f s \<Longrightarrow> shape t = s \<Longrightarrow> well_shaped t \<Longrightarrow>
     \<exists>t'. f t = Inr t' \<and> shape t' = s \<and> well_shaped t'"
  by (simp add: keeps_shape_def)

lemma call_returns:
  assumes bu: "built net"
    and dt: "dtype inputs = dtype (sample_spec net)"
    and sh: "shape inputs = outer @ [d]" and d: "0 < d"
    and pos: "0 < num_elements (shape (sample_spec net))"
    and tr: "transforms_keep_shape net (prod_list outer)"
  shows "\<exists>proj m pre s.
           dense_call (means_projection_layer net) (inputs\<lparr>shape := [prod_list outer, d]\<rparr>)
             = Inr proj
         \<and> (case mean_transform net of
               None \<Rightarrow> m = proj\<lparr>shape := prod_list outer # shape (sample_spec net)\<rparr>
             | Some f \<Rightarrow>
                 if scale_distribution net
                 then m = proj\<lparr>shape := prod_list outer # shape (sample_spec net)\<rparr>
                 else f (proj\<lparr>shape := prod_list outer # shape (sample_spec net)\<rparr>)
                        (sample_spec net) = Inr m)
         \<and> shape m = prod_list outer # shape (sample_spec net)
         \<and> (if state_dependent_std net
             then (\<exists>l. stddev_projection_layer net = Some l
                      \<and> dense_call l (inputs\<lparr>shape := [prod_list outer, d]\<rparr>) = Inr pre)
             else (\<exists>l. bias_layer net = Some l
                      \<and> pre = bias_tensor l (dtype (sample_spec net))
                                (prod_list outer # shape (sample_spec net))))
         \<and> (case std_transform net of None \<Rightarrow> s = pre | Some g \<Rightarrow> g pre = Inr s)
         \<and> snd (call net inputs (length outer))
             = Inr (distribution_builder (scale_distribution net) (sample_spec net)
                      ((tf_cast m (dtype (sample_spec net)))
                         \<lparr>shape := outer @ shape (sample_spec net)\<rparr>)
                      ((tf_cast s (dtype (sample_spec net)))
                         \<lparr>shape := outer @ tl (shape s)\<rparr>))"
proof -
  let ?spec = "sample_spec net"
  let ?S = "shape ?spec" and ?dt = "dtype ?spec"
  let ?n = "num_elements ?S" and ?B = "prod_list outer"
  let ?flat = "inputs\<lparr>shape := [?B, d]\<rparr>"
  let ?ml = "means_projection_layer net"
  from bu have un: "units ?ml = ?n" and ker: "\<And>d n. \<exists>k. kernel ?ml d n = Inr k"
    and bld: "builder (output_spec net) = distribution_builder (scale_distribution net) ?spec"
    by (simp_all add: built_def)
  from tr have act: "case activation ?ml of None \<Rightarrow> True
                      | Some a \<Rightarrow> keeps_shape (\<lambda>t. Inr (a t)) [?B, units ?ml]"
    by (auto simp: transforms_keep_shape_def Let_def un split: option.splits)
  have fl: "flatten (BatchSquash (length outer)) inputs
              = Inr (squashed outer (outer @ [d]), ?flat)"
    using flatten_batch[OF sh d] sh by simp
  obtain k where k: "kernel ?ml d (units ?ml) = Inr k" using ker by blast
  obtain proj where proj: "dense_call ?ml ?flat = Inr proj" "shape proj = [?B, ?n]"
    "well_shaped proj"
    using dense_call_batch[of ?flat ?B d ?ml k, OF _ k act] un by auto
  let ?r = "proj\<lparr>shape := ?B # ?S\<rparr>"
  have rs: "tf_reshape proj (- 1 # map int ?S) = Inr ?r"
    by (rule reshape_infer) (use pos proj(2) in \<open>simp_all add: num_elements_def\<close>)
  have r_ws: "well_shaped ?r"
    using proj(2,3) by (intro well_shaped_reshaped) (simp_all add: num_elements_def)
  \<comment> \<open>the transform of the means\<close>
  define mt where "mt = (case mean_transform net of
                           Some f \<Rightarrow> if \<not> scale_distribution net
                                     then (f ?r ?spec) else Inr ?r
                         | None \<Rightarrow> Inr ?r)"
  have "\<exists>m. mt = Inr m \<and> shape m = ?B # ?S \<and> well_shaped m
           \<and> (case mean_transform net of
                 None \<Rightarrow> m = ?r
               | Some f \<Rightarrow> if scale_distribution net then m = ?r else f ?r ?spec = Inr m)"
  proof (cases "mean_transform net")
    case None
    then show ?thesis using r_ws by (simp add: mt_def)
  next
    case (Some f)
    show ?thesis
    proof (cases "scale_distribution net")
      case True
      with Some show ?thesis using r_ws by (simp add: mt_def)
    next
      case False
      with tr Some have "keeps_shape (\<lambda>t. f t ?spec) (?B # ?S)"
        by (simp add: transforms_keep_shape_def Let_def)
      from keeps_shapeD[OF this _ r_ws]
      obtain m where "f ?r ?spec = Inr m" "shape m = ?B # ?S" "well_shaped m"
        by auto
      with Some False show ?thesis by (simp add: mt_def)
    qed
  qed
  then obtain m where m: "mt = Inr m" "shape m = ?B # ?S" "well_shaped m"
    "case mean_transform net of
       None \<Rightarrow> m = ?r
     | Some f \<Rightarrow> if scale_distribution net then m = ?r else f ?r ?spec = Inr m"
    by blast
  let ?c = "tf_cast m ?dt"
  \<comment> \<open>the standard deviations before their transform\<close>
  define sd where "sd = (if state_dependent_std net
           then (case stddev_projection_layer net of
                   None \<Rightarrow> Inl (TypeError ''NoneType object is not callable'')
                 | Some l \<Rightarrow> (dense_call l ?flat))
           else (case bias_layer net of
                   None \<Rightarrow> Inl (AttributeError ''_bias'')
                 | Some l \<Rightarrow>
                     (case (bias_layer_call l (tf_zeros_like ?c)) of
                        Inl e \<Rightarrow> Inl e
                      | Inr stds \<Rightarrow> (tf_reshape stds (- 1 # map int ?S)))))"
  have "\<exists>pre. sd = Inr pre \<and> well_shaped pre
           \<and> shape pre = (if state_dependent_std net then [?B, ?n] else ?B # ?S)
           \<and> (if state_dependent_std net
               then (\<exists>l. stddev_projection_layer net = Some l \<and> dense_call l ?flat = Inr pre)
               else (\<exists>l. bias_layer net = Some l \<and> pre = bias_tensor l ?dt (?B # ?S)))"
  proof (cases "state_dependent_std net")
    case True
    with bu obtain l where l: "stddev_projection_layer net = Some l" "units l = ?n"
      "\<And>d n. \<exists>k. kernel l d n = Inr k"
      by (auto simp: built_def split: option.splits)
    obtain k' where k': "kernel l d (units l) = Inr k'" using l(3) by blast
    from tr l have act': "case activation l of None \<Rightarrow> True
                      | Some a \<Rightarrow> keeps_shape (\<lambda>t. Inr (a t)) [?B, units l]"
      by (auto simp: transforms_keep_shape_def Let_def split: option.splits)
    obtain pre where "dense_call l ?flat = Inr pre" "shape pre = [?B, ?n]" "well_shaped pre"
      using dense_call_batch[of ?flat ?B d l k', OF _ k' act'] l(2) by auto
    with True l show ?thesis by (simp add: sd_def)
  next
    case False
    with bu obtain l where l: "bias_layer net = Some l" by (auto simp: built_def)
    have b1: "bias_layer_call l (tf_zeros_like ?c) = Inr (bias_tensor l ?dt (?B # ?S))"
      by (rule bias_call_zeros) (use m in simp_all)
    have b2: "tf_reshape (bias_tensor l ?dt (?B # ?S)) (- 1 # map int ?S)
                = Inr ((bias_tensor l ?dt (?B # ?S))\<lparr>shape := ?B # ?S\<rparr>)"
      by (rule reshape_infer) (use pos in \<open>simp_all add: bias_tensor_def num_elements_def\<close>)
    have b3: "(bias_tensor l ?dt (?B # ?S))\<lparr>shape := ?B # ?S\<rparr> = bias_tensor l ?dt (?B # ?S)"
      by (simp add: bias_tensor_def)
    have "well_shaped (bias_tensor l ?dt (?B # ?S))"
      by (simp add: bias_tensor_def well_shaped_def)
    moreover have "shape (bias_tensor l ?dt (?B # ?S)) = ?B # ?S"
      by (simp add: bias_tensor_def)
    ultimately show ?thesis using False l by (simp add: sd_def b1 b2 b3)
  qed
  then obtain pre where pre: "sd = Inr pre" "well_shaped pre"
    "shape pre = (if state_dependent_std net then [?B, ?n] else ?B # ?S)"
    "if state_dependent_std net
     then (\<exists>l. stddev_projection_layer net = Some l \<and> dense_call l ?flat = Inr pre)
     else (\<exists>l. bias_layer net = Some l \<and> pre = bias_tensor l ?dt (?B # ?S))"
    by blast
  \<comment> \<open>the transform of the standard deviations\<close>
  define st where "st = (case std_transform net of
                           Some g \<Rightarrow> (g pre) | None \<Rightarrow> Inr pre)"
  have "\<exists>s. st = Inr s \<and> shape s = shape pre
           \<and> (case std_transform net of None \<Rightarrow> s = pre | Some g \<Rightarrow> g pre = Inr s)"
  proof (cases "std_transform net")
    case None
    then show ?thesis by (simp add: st_def)
  next
    case (Some g)
    with tr have "keeps_shape g (shape pre)"
      by (simp add: transforms_keep_shape_def Let_def pre(3))
    from keeps_shapeD[OF this refl pre(2)]
    obtain s where "g pre = Inr s" "shape s = shape pre"
      by auto
    with Some show ?thesis by (simp add: st_def)
  qed
  then obtain s where s: "st = Inr s" "shape s = shape pre"
    "case std_transform net of None \<Rightarrow> s = pre | Some g \<Rightarrow> g pre = Inr s"
    by blast
  have s_sh: "shape (tf_cast s ?dt) = ?B # tl (shape s)"
    using s(2) pre(3) by simp
  have u1: "unflatten (squashed outer (outer @ [d])) ?c = Inr (?c\<lparr>shape := outer @ ?S\<rparr>)"
    by (rule unflatten_batch) (simp add: m(2))
  have u2: "unflatten (squashed outer (outer @ [d])) (tf_cast s ?dt)
              = Inr ((tf_cast s ?dt)\<lparr>shape := outer @ tl (shape s)\<rparr>)"
    by (rule unflatten_batch) (rule s_sh)
  have run: "snd (call net inputs (length outer))
          = Inr (distribution_builder (scale_distribution net) ?spec
                   (?c\<lparr>shape := outer @ ?S\<rparr>)
                   ((tf_cast s ?dt)\<lparr>shape := outer @ tl (shape s)\<rparr>))"
  proof -
    have mt': "snd (case mean_transform net of
             Some f \<Rightarrow> if \<not> scale_distribution net
                       then lift ((f ?r ?spec))
                       else ret ?r
           | None \<Rightarrow> ret ?r) = Inr m"
      using m(1) by (simp add: mt_def split: option.splits if_splits)
    have sd': "snd (if state_dependent_std net
           then (case stddev_projection_layer net of
                   None \<Rightarrow> raise (TypeError ''NoneType object is not callable'')
                 | Some l \<Rightarrow> apply_dense l ?flat)
           else (case bias_layer net of
                   None \<Rightarrow> raise (AttributeError ''_bias'')
                 | Some l \<Rightarrow>
                     and_then (apply_bias l (tf_zeros_like ?c)) (\<lambda>stds.
                     lift (
                        (tf_reshape stds (- 1 # map int ?S)))))) = Inr pre"
      using pre(1) by (simp add: sd_def snd_and_then split: option.splits if_splits sum.splits)
    have st': "snd (case std_transform net of
             Some f \<Rightarrow> lift ((f pre))
           | None \<Rightarrow> ret pre) = Inr s"
      using s(1) by (simp add: st_def split: option.splits)
    show ?thesis
      unfolding call_def
      by (simp add: dt snd_and_then fl proj(1) rs mt' Let_def sd' st' u1 u2
            build_distribution_def bld)
  qed
  show ?thesis
    using proj(1) m(2,4) pre(4) s(3) run by blast
qed

subsection \<open>The constructor builds a network that call accepts\<close>

lemma init_built:
  assumes "snd (NormalProjectionNetwork_init (Leaf spec) act f v mt st sd sc nm vs) = Inr net"
  shows "built net \<and> sample_spec net = spec \<and> scale_distribution net = sc
           \<and> state_dependent_std net = sd \<and> mean_transform net = mt
           \<and> std_transform net = st"
proof (cases "f \<le> 0")
  case True
  with assms show ?thesis by (simp add: init_defs VarianceScaling_simps)
next
  case False
  then have "0 < f" by simp
  with assms show ?thesis
    by (cases sd) (auto simp: init_defs VarianceScaling_simps built_def)
qed

lemma example_network_init:
  "snd (NormalProjectionNetwork_init (Leaf pair_spec) None 0.1 0.0
          (Some tanh_squash_to_spec) (Some softplus) False False
          ''NormalProjectionNetwork'' example_scaling) = Inr example_network"
  by (simp add: init_defs VarianceScaling_simps example_network_def pair_spec_def
        num_elements_def)

lemma example_network_built: "built example_network"
  using init_built[OF example_network_init] by simp

lemma keeps_shape_softplus: "keeps_shape softplus s"
  by (simp add: keeps_shape_def softplus_def well_shaped_def)

lemma broadcast_shape_Nil [simp]: "broadcast_shape [] bs = Some bs" "broadcast_shape as [] = Some as"
  by (cases as; simp)+

lemma keeps_shape_tanh_squash_scalar_bounds:
  assumes "shape (minimum spec) = []" "shape (maximum spec) = []"
    "well_shaped (minimum spec)" "well_shaped (maximum spec)"
  shows "keeps_shape (\<lambda>t. tanh_squash_to_spec t spec) s"
  unfolding keeps_shape_def
proof (intro allI impI)
  fix t assume t: "shape t = s \<and> well_shaped t"
  have sq: "squash_shape spec t = Some (rev s)"
    using assms t by (simp add: squash_shape_def)
  from tanh_squash_to_spec_vals[OF _ assms(3,4) sq] t
  obtain r where r: "tanh_squash_to_spec t spec = Inr r" "shape r = rev (rev s)"
    "vals r = map (\<lambda>i. squash_formula (broadcast_to (rev s) (minimum spec) ! i)
                                 (broadcast_to (rev s) (maximum spec) ! i)
                                 (broadcast_to (rev s) t ! i))
                [0..<prod_list (rev s)]"
    by blast
  have "well_shaped r"
    using r(2,3) by (simp add: well_shaped_def num_elements_def)
  with r show "\<exists>t'. tanh_squash_to_spec t spec = Inr t' \<and> shape t' = s \<and> well_shaped t'"
    by simp
qed

lemma example_network_transforms: "transforms_keep_shape example_network b"
  by (simp add: transforms_keep_shape_def example_network_def keeps_shape_softplus
        keeps_shape_tanh_squash_scalar_bounds pair_spec_def scalar_def well_shaped_def
        num_elements_def)

subsection \<open>The dtype check of call\<close>

text \<open>
  C9, as the claim states it, fails: on a vector, which has no batch axis left when
  \<open>outer_rank\<close> is 1, the dtype of the input is that of the sample spec and the means
  projection layer raises \<open>ValueError\<close>, after it has been applied.
\<close>

theorem call_ValueError_counterexample:
  "dtype vector_inputs = dtype (sample_spec example_network)
     \<and> call example_network vector_inputs 1
         = ([Applied ''means_projection_layer''],
            Inl (ValueError
              ''Input 0 of layer is incompatible with the layer: expected min_ndim=2''))"
  by (simp add: call_def vector_inputs_def example_network_def pair_spec_def flatten_def
        BatchSquash_def apply_dense_def dense_call_def and_then_Inl)

text \<open>
  C9, amended. When the dtype of the input differs from the dtype of the sample spec,
  \<open>call\<close> raises the \<open>ValueError\<close> of its check, and no layer has been applied. For a
  network as the constructor builds it, with a floating dtype and a sample spec that has
  elements, with an activation and transforms that keep shapes, on an input that has the
  \<open>outer_rank\<close> batch dimensions and a feature axis that is not empty, \<open>call\<close> raises
  \<open>ValueError\<close> if and only if the dtypes differ.
\<close>

theorem call_ValueError_iff:
  "(dtype inputs \<noteq> dtype (sample_spec net)
      \<longrightarrow> call net inputs outer_rank
          = ([], Inl (ValueError
               ''Inputs to NormalProjectionNetwork must match the sample_spec.dtype.'')))
   \<and> (built net \<and> is_floating (dtype (sample_spec net))
        \<and> shape inputs = outer @ [d] \<and> 0 < d
        \<and> 0 < num_elements (shape (sample_spec net))
        \<and> transforms_keep_shape net (prod_list outer)
      \<longrightarrow> ((\<exists>msg. snd (call net inputs (length outer)) = Inl (ValueError msg))
            \<longleftrightarrow> dtype inputs \<noteq> dtype (sample_spec net)))"
proof (intro conjI impI)
  assume "dtype inputs \<noteq> dtype (sample_spec net)"
  then show "call net inputs outer_rank
          = ([], Inl (ValueError
               ''Inputs to NormalProjectionNetwork must match the sample_spec.dtype.''))"
    by (simp add: call_def raise_def)
next
  assume h: "built net \<and> is_floating (dtype (sample_spec net))
        \<and> shape inputs = outer @ [d] \<and> 0 < d
        \<and> 0 < num_elements (shape (sample_spec net))
        \<and> transforms_keep_shape net (prod_list outer)"
  show "(\<exists>msg. snd (call net inputs (length outer)) = Inl (ValueError msg))
            \<longleftrightarrow> dtype inputs \<noteq> dtype (sample_spec net)"
  proof (cases "dtype inputs = dtype (sample_spec net)")
    case True
    from h have "built net" "shape inputs = outer @ [d]" "0 < d"
      "0 < num_elements (shape (sample_spec net))"
      "transforms_keep_shape net (prod_list outer)"
      by simp_all
    from call_returns[OF this(1) True this(2,3,4,5)]
    obtain dist where "snd (call net inputs (length outer)) = Inr dist" by blast
    with True show ?thesis by simp
  next
    case False
    then show ?thesis by (simp add: call_def raise_def)
  qed
qed

theorem call_ValueError_iff_witness:
  "dtype int_inputs \<noteq> dtype (sample_spec example_network)
     \<and> call example_network int_inputs 1
         = ([], Inl (ValueError
              ''Inputs to NormalProjectionNetwork must match the sample_spec.dtype.''))
     \<and> built example_network \<and> is_floating (dtype (sample_spec example_network))
     \<and> shape example_inputs = [2] @ [2] \<and> shape int_inputs = [2] @ [2]
     \<and> 0 < num_elements (shape (sample_spec example_network))
     \<and> transforms_keep_shape example_network (prod_list [2])
     \<and> dtype example_inputs = dtype (sample_spec example_network)
     \<and> (\<forall>msg. snd (call example_network example_inputs (length [2::nat]))
                  \<noteq> Inl (ValueError msg))
     \<and> (\<exists>msg. snd (call example_network int_inputs (length [2::nat]))
                  = Inl (ValueError msg))"
proof -
  have h: "dtype int_inputs \<noteq> dtype (sample_spec example_network)"
    "is_floating (dtype (sample_spec example_network))"
    "shape example_inputs = [2] @ [2]" "shape int_inputs = [2] @ [2]"
    "0 < num_elements (shape (sample_spec example_network))"
    "dtype example_inputs = dtype (sample_spec example_network)"
    by (simp_all add: int_inputs_def example_inputs_def example_network_def pair_spec_def
          num_elements_def is_floating_def)
  have d: "(0::nat) < 2" by simp
  note b = example_network_built and t = example_network_transforms[of "prod_list [2]"]
  from call_ValueError_iff[of int_inputs example_network 1 "[2]" 2]
    call_ValueError_iff[of example_inputs example_network 1 "[2]" 2]
  show ?thesis using h d b t by simp
qed

subsection \<open>The distribution that call returns\<close>

text \<open>
  C2, as the claim states it, fails: the dtype of a vector can be that of the sample
  spec, and with \<open>outer_rank = 1\<close> the means projection layer gets a tensor without a
  batch axis and raises; \<open>call\<close> returns no distribution.
\<close>

theorem call_returns_Normal_counterexample:
  "dtype vector_inputs = dtype (sample_spec example_network)
     \<and> \<not> scale_distribution example_network
     \<and> snd (call example_network vector_inputs 1)
         = Inl (ValueError
             ''Input 0 of layer is incompatible with the layer: expected min_ndim=2'')"
  by (simp add: call_def vector_inputs_def example_network_def pair_spec_def flatten_def
        BatchSquash_def apply_dense_def dense_call_def and_then_Inl)

text \<open>
  C2, amended. For a network as the constructor builds it, without
  \<open>scale_distribution\<close>, with a floating dtype and a sample spec that has elements, with
  an activation and transforms that keep shapes, and for an input of the dtype of the
  sample spec that has the \<open>outer_rank\<close> batch dimensions and a feature axis that is
  not empty, \<open>call\<close> returns a \<open>Normal\<close> distribution. Its \<open>loc\<close> is the output of
  the means projection layer on the flattened batch, reshaped to the shape of the sample
  spec, passed through \<open>mean_transform\<close> when there is one, cast to the dtype of the spec
  and given back its batch dimensions. Its \<open>scale\<close> is \<open>std_transform\<close> (when there is
  one) applied to the pre-activation of the standard deviations, which is the output of
  the stddev projection layer or the bias, then cast and given back its batch dimensions.
\<close>

theorem call_returns_Normal:
  assumes "built net"
    and "is_floating (dtype (sample_spec net))"
    and "dtype inputs = dtype (sample_spec net)"
    and "\<not> scale_distribution net"
    and "shape inputs = outer @ [d]" and "0 < d"
    and "0 < num_elements (shape (sample_spec net))"
    and "transforms_keep_shape net (prod_list outer)"
  shows "\<exists>proj m pre s loc_t scale_t.
           snd (call net inputs (length outer)) = Inr (Normal loc_t scale_t)
         \<and> dense_call (means_projection_layer net) (inputs\<lparr>shape := [prod_list outer, d]\<rparr>)
             = Inr proj
         \<and> (case mean_transform net of
               None \<Rightarrow> m = proj\<lparr>shape := prod_list outer # shape (sample_spec net)\<rparr>
             | Some f \<Rightarrow>
                 f (proj\<lparr>shape := prod_list outer # shape (sample_spec net)\<rparr>)
                   (sample_spec net) = Inr m)
         \<and> loc_t = (tf_cast m (dtype (sample_spec net)))
                      \<lparr>shape := outer @ shape (sample_spec net)\<rparr>
         \<and> (if state_dependent_std net
             then (\<exists>l. stddev_projection_layer net = Some l
                      \<and> dense_call l (inputs\<lparr>shape := [prod_list outer, d]\<rparr>) = Inr pre)
             else (\<exists>l. bias_layer net = Some l
                      \<and> pre = bias_tensor l (dtype (sample_spec net))
                                (prod_list outer # shape (sample_spec net))))
         \<and> (case std_transform net of None \<Rightarrow> s = pre | Some g \<Rightarrow> g pre = Inr s)
         \<and> scale_t = (tf_cast s (dtype (sample_spec net)))\<lparr>shape := outer @ tl (shape s)\<rparr>"
proof -
  from call_returns[OF assms(1,3,5,6,7,8)]
  obtain proj m pre s where r:
    "dense_call (means_projection_layer net) (inputs\<lparr>shape := [prod_list outer, d]\<rparr>)
       = Inr proj"
    "case mean_transform net of
       None \<Rightarrow> m = proj\<lparr>shape := prod_list outer # shape (sample_spec net)\<rparr>
     | Some f \<Rightarrow>
         if scale_distribution net
         then m = proj\<lparr>shape := prod_list outer # shape (sample_spec net)\<rparr>
         else f (proj\<lparr>shape := prod_list outer # shape (sample_spec net)\<rparr>)
                (sample_spec net) = Inr m"
    "if state_dependent_std net
     then (\<exists>l. stddev_projection_layer net = Some l
              \<and> dense_call l (inputs\<lparr>shape := [prod_list outer, d]\<rparr>) = Inr pre)
     else (\<exists>l. bias_layer net = Some l
              \<and> pre = bias_tensor l (dtype (sample_spec net))
                        (prod_list outer # shape (sample_spec net)))"
    "case std_transform net of None \<Rightarrow> s = pre | Some g \<Rightarrow> g pre = Inr s"
    "snd (call net inputs (length outer))
       = Inr (distribution_builder (scale_distribution net) (sample_spec net)
                ((tf_cast m (dtype (sample_spec net)))
                   \<lparr>shape := outer @ shape (sample_spec net)\<rparr>)
                ((tf_cast s (dtype (sample_spec net)))
                   \<lparr>shape := outer @ tl (shape s)\<rparr>))"
    by blast
  from r(2) assms(4)
  have m: "case mean_transform net of
             None \<Rightarrow> m = proj\<lparr>shape := prod_list outer # shape (sample_spec net)\<rparr>
           | Some f \<Rightarrow>
               f (proj\<lparr>shape := prod_list outer # shape (sample_spec net)\<rparr>)
                 (sample_spec net) = Inr m"
    by (simp split: option.splits)
  from r(5) assms(4)
  have "snd (call net inputs (length outer))
          = Inr (Normal ((tf_cast m (dtype (sample_spec net)))
                           \<lparr>shape := outer @ shape (sample_spec net)\<rparr>)
                        ((tf_cast s (dtype (sample_spec net)))
                           \<lparr>shape := outer @ tl (shape s)\<rparr>))"
    by (simp add: distribution_builder_def)
  with r(1,3,4) m show ?thesis by blast
qed

theorem call_returns_Normal_witness:
  "built example_network
     \<and> is_floating (dtype (sample_spec example_network))
     \<and> dtype example_inputs = dtype (sample_spec example_network)
     \<and> \<not> scale_distribution example_network
     \<and> shape example_inputs = [2] @ [2]
     \<and> 0 < num_elements (shape (sample_spec example_network))
     \<and> transforms_keep_shape example_network (prod_list [2])
     \<and> (\<exists>loc_t scale_t.
           snd (call example_network example_inputs (length [2::nat])) = Inr (Normal loc_t scale_t)
           \<and> shape loc_t = [2, 2] \<and> dtype loc_t = float32)"
proof -
  have h: "is_floating (dtype (sample_spec example_network))"
    "dtype example_inputs = dtype (sample_spec example_network)"
    "\<not> scale_distribution example_network"
    "shape example_inputs = [2] @ [2]"
    "0 < num_elements (shape (sample_spec example_network))"
    by (simp_all add: example_inputs_def example_network_def pair_spec_def num_elements_def
          is_floating_def)
  have d: "(0::nat) < 2" by simp
  from call_returns_Normal[OF example_network_built h(1,2,3,4) d h(5)
         example_network_transforms]
  obtain m s loc_t scale_t where
    "snd (call example_network example_inputs (length [2::nat])) = Inr (Normal loc_t scale_t)"
    "loc_t = (tf_cast m (dtype (sample_spec example_network)))
               \<lparr>shape := [2] @ shape (sample_spec example_network)\<rparr>"
    by blast
  then have "\<exists>loc_t scale_t.
           snd (call example_network example_inputs (length [2::nat])) = Inr (Normal loc_t scale_t)
           \<and> shape loc_t = [2, 2] \<and> dtype loc_t = float32"
    by (simp add: example_network_def pair_spec_def)
  with h example_network_built example_network_transforms show ?thesis by blast
qed

subsection \<open>Standard deviations that do not depend on the input\<close>

text \<open>
  C10. When \<open>state_dependent_std\<close> is false, two inputs of the same shape and dtype get
  the same standard deviations from the same network: \<open>std_transform\<close> applied to the
  bias of the bias layer, broadcast to the shape of the means.
\<close>

theorem std_independent_of_inputs:
  assumes "built net" and "\<not> state_dependent_std net"
    and "dtype x = dtype (sample_spec net)" and "dtype x' = dtype (sample_spec net)"
    and "shape x = outer @ [d]" and "shape x' = shape x" and "0 < d"
    and "0 < num_elements (shape (sample_spec net))"
    and "transforms_keep_shape net (prod_list outer)"
  shows "\<exists>l pre s dist dist'.
           bias_layer net = Some l
         \<and> pre = bias_tensor l (dtype (sample_spec net))
                    (prod_list outer # shape (sample_spec net))
         \<and> (case std_transform net of None \<Rightarrow> s = pre | Some g \<Rightarrow> g pre = Inr s)
         \<and> snd (call net x (length outer)) = Inr dist
         \<and> snd (call net x' (length outer)) = Inr dist'
         \<and> normal_scale dist = normal_scale dist'
         \<and> normal_scale dist
             = (tf_cast s (dtype (sample_spec net)))\<lparr>shape := outer @ tl (shape s)\<rparr>"
proof -
  have ns: "normal_scale (distribution_builder sc sp a b) = b" for sc sp a b
    by (simp add: distribution_builder_def Let_def)
  from call_returns[OF assms(1,3,5,7,8,9)] assms(2)
  obtain m l s where a:
    "bias_layer net = Some l"
    "case std_transform net of
       None \<Rightarrow> s = bias_tensor l (dtype (sample_spec net))
                      (prod_list outer # shape (sample_spec net))
     | Some g \<Rightarrow> g (bias_tensor l (dtype (sample_spec net))
                      (prod_list outer # shape (sample_spec net))) = Inr s"
    "snd (call net x (length outer))
       = Inr (distribution_builder (scale_distribution net) (sample_spec net)
                ((tf_cast m (dtype (sample_spec net)))
                   \<lparr>shape := outer @ shape (sample_spec net)\<rparr>)
                ((tf_cast s (dtype (sample_spec net)))
                   \<lparr>shape := outer @ tl (shape s)\<rparr>))"
    by auto
  from assms(5,6) have sh': "shape x' = outer @ [d]" by simp
  from call_returns[OF assms(1,4) sh' assms(7,8,9)] assms(2)
  obtain m' l' s' where b:
    "bias_layer net = Some l'"
    "case std_transform net of
       None \<Rightarrow> s' = bias_tensor l' (dtype (sample_spec net))
                      (prod_list outer # shape (sample_spec net))
     | Some g \<Rightarrow> g (bias_tensor l' (dtype (sample_spec net))
                      (prod_list outer # shape (sample_spec net))) = Inr s'"
    "snd (call net x' (length outer))
       = Inr (distribution_builder (scale_distribution net) (sample_spec net)
                ((tf_cast m' (dtype (sample_spec net)))
                   \<lparr>shape := outer @ shape (sample_spec net)\<rparr>)
                ((tf_cast s' (dtype (sample_spec net)))
                   \<lparr>shape := outer @ tl (shape s')\<rparr>))"
    by auto
  from a(1) b(1) have ll: "l' = l" by simp
  with a(2) b(2) have ss: "s' = s" by (cases "std_transform net") auto
  let ?scale = "(tf_cast s (dtype (sample_spec net)))\<lparr>shape := outer @ tl (shape s)\<rparr>"
  from a(3) obtain dist where d1: "snd (call net x (length outer)) = Inr dist"
    "normal_scale dist = ?scale"
    by (simp add: ns)
  from b(3) ss obtain dist' where d2: "snd (call net x' (length outer)) = Inr dist'"
    "normal_scale dist' = ?scale"
    by (simp add: ns)
  from a(1,2) d1 d2 show ?thesis by auto
qed

theorem std_independent_of_inputs_witness:
  "built example_network \<and> \<not> state_dependent_std example_network
     \<and> dtype example_inputs = dtype (sample_spec example_network)
     \<and> dtype other_inputs = dtype (sample_spec example_network)
     \<and> shape example_inputs = [2] @ [2] \<and> shape other_inputs = shape example_inputs
     \<and> 0 < num_elements (shape (sample_spec example_network))
     \<and> transforms_keep_shape example_network (prod_list [2])
     \<and> (\<exists>dist dist'.
           snd (call example_network example_inputs (length [2::nat])) = Inr dist
         \<and> snd (call example_network other_inputs (length [2::nat])) = Inr dist'
         \<and> normal_scale dist = normal_scale dist')"
proof -
  have h: "\<not> state_dependent_std example_network"
    "dtype example_inputs = dtype (sample_spec example_network)"
    "dtype other_inputs = dtype (sample_spec example_network)"
    "shape example_inputs = [2] @ [2]" "shape other_inputs = shape example_inputs"
    "0 < num_elements (shape (sample_spec example_network))"
    by (simp_all add: example_inputs_def other_inputs_def example_network_def pair_spec_def
          num_elements_def)
  have d: "(0::nat) < 2" by simp
  from std_independent_of_inputs[OF example_network_built h(1,2,3,4,5) d h(6)
         example_network_transforms]
  have "\<exists>dist dist'.
           snd (call example_network example_inputs (length [2::nat])) = Inr dist
         \<and> snd (call example_network other_inputs (length [2::nat])) = Inr dist'
         \<and> normal_scale dist = normal_scale dist'"
    by blast
  with h example_network_built example_network_transforms show ?thesis by blast
qed

subsection \<open>The logits of the categorical networks\<close>

lemma weights_initializer_shape:
  "constant_verify_shape (weights_initializer n) 2 (2 * n)
     = Inr (\<lambda>i j. weights_initializer n ! i ! j)"
  by (simp add: constant_verify_shape_def weights_initializer_def)

lemma apply_layers_single [simp]: "snd (apply_layers [l] t) = dense_call l t"
  by (cases "dense_call l t") (simp_all add: snd_and_then)

lemma vals_cast_float32 [simp]: "vals (tf_cast t float32) = vals t"
proof -
  have "cast_element float32 = (\<lambda>x. x)"
    by (rule ext) (simp add: cast_element_def)
  then show ?thesis by (simp add: tf_cast_def)
qed

lemma take_two:
  "i + 2 \<le> length xs \<Longrightarrow> take 2 (drop i xs) = [xs ! i, xs ! (i + 1)]"
  by (simp add: numeral_2_eq_2 take_Suc_conv_app_nth)

lemma dummy_row:
  "dense_row (\<lambda>i j. weights_initializer n ! i ! j) ones (2 * n) [x0, x1]
     = dummy_logits n x0 x1"
proof (rule nth_equalityI)
  show "length (dense_row (\<lambda>i j. weights_initializer n ! i ! j) ones (2 * n) [x0, x1])
          = length (dummy_logits n x0 x1)"
    by (simp add: dummy_logits_def)
next
  fix j assume "j < length (dense_row (\<lambda>i j. weights_initializer n ! i ! j) ones (2 * n)
                             [x0, x1])"
  then have j: "j < 2 * n" by simp
  have two: "[0..<2] = [0, Suc 0]" by (simp add: upt_rec)
  show "dense_row (\<lambda>i j. weights_initializer n ! i ! j) ones (2 * n) [x0, x1] ! j
          = dummy_logits n x0 x1 ! j"
    using j
    by (simp add: dense_row_def dummy_logits_def weights_initializer_def ones_def two
          nth_append)
qed

lemma dummy_dense_vals:
  assumes "length xs = 2 * batch"
  shows "concat (map (\<lambda>r. dense_row (\<lambda>i j. weights_initializer n ! i ! j) ones (2 * n)
                            (take 2 (drop (r * 2) xs))) [0..<batch])
           = concat (map (\<lambda>r. dummy_logits n (xs ! (2 * r)) (xs ! (2 * r + 1))) [0..<batch])"
proof -
  have "dense_row (\<lambda>i j. weights_initializer n ! i ! j) ones (2 * n)
          (take 2 (drop (r * 2) xs)) = dummy_logits n (xs ! (2 * r)) (xs ! (2 * r + 1))"
    if "r \<in> set [0..<batch]" for r
  proof -
    from that assms have "2 * r + 2 \<le> length xs" by simp
    from take_two[OF this]
    have t: "take 2 (drop (2 * r) xs) = [xs ! (2 * r), xs ! (2 * r + 1)]" .
    show ?thesis by (simp only: mult.commute[of r 2] t dummy_row)
  qed
  then have "map (\<lambda>r. dense_row (\<lambda>i j. weights_initializer n ! i ! j) ones (2 * n)
                      (take 2 (drop (r * 2) xs))) [0..<batch]
               = map (\<lambda>r. dummy_logits n (xs ! (2 * r)) (xs ! (2 * r + 1))) [0..<batch]"
    by (rule map_cong[OF refl])
  then show ?thesis by (rule arg_cong[where f = concat])
qed

text \<open>
  C7. On a batch of observations \<open>DummyCategoricalNet.call\<close> returns the logits that
  its dense layer computes, a vector over the \<open>num_atoms\<close> atoms for each of the
  actions, in a tensor of shape \<open>[batch, num_actions, num_atoms]\<close>, with the network
  state it was given; \<open>DummyCategoricalQRnnNetwork.call\<close> splits the last dimension of
  the parent's logits into \<open>[num_actions, num_atoms]\<close>, leaves their values as they are
  and passes on the parent's network state.
\<close>

theorem categorical_logits_shape:
  "(snd (DummyCategoricalNet_init spec n_atoms 2) = Inr net \<and> shape inputs = [batch, 2]
      \<and> well_shaped inputs \<and> 0 < n_atoms
      \<longrightarrow> snd (DummyCategoricalNet_call net inputs step_type network_state)
            = Inr (\<lparr>dtype = float32, shape = [batch, num_actions net, num_atoms net],
                    vals = concat (map (\<lambda>r. dummy_logits n_atoms (vals inputs ! (2 * r))
                                               (vals inputs ! (2 * r + 1)))
                                     [0..<batch])\<rparr>,
                   network_state)
          \<and> length (concat (map (\<lambda>r. dummy_logits n_atoms (vals inputs ! (2 * r))
                                         (vals inputs ! (2 * r + 1))) [0..<batch]))
              = batch * num_actions net * num_atoms net)
   \<and> (snd (super_call rnn observations step network_state) = Inr (logits', state')
        \<and> shape logits' = bs @ [rnn_num_actions rnn * rnn_num_atoms rnn]
      \<longrightarrow> snd (DummyCategoricalQRnnNetwork_call rnn observations step network_state)
            = Inr (logits'\<lparr>shape := bs @ [rnn_num_actions rnn, rnn_num_atoms rnn]\<rparr>, state'))"
proof (intro conjI impI)
  assume a: "snd (DummyCategoricalNet_init spec n_atoms 2) = Inr net \<and> shape inputs = [batch, 2]
      \<and> well_shaped inputs \<and> 0 < n_atoms"
  define l :: dense where "l = \<lparr>layer_name = ''dense'', bias = ones, units = 2 * n_atoms,
     activation = None, kernel = constant_verify_shape (weights_initializer n_atoms)\<rparr>"
  from a have net: "dummy_layers net = [l]" "num_actions net = 2" "num_atoms net = n_atoms"
    by (auto simp: DummyCategoricalNet_init_def Dense_def and_then_events ret_def l_def)
  let ?x = "tf_cast inputs float32"
  define v where "v = concat (map (\<lambda>r. dummy_logits n_atoms (vals inputs ! (2 * r))
                                        (vals inputs ! (2 * r + 1))) [0..<batch])"
  let ?p = "\<lparr>dtype = float32, shape = [batch, 2 * n_atoms], vals = v\<rparr>"
  from a have len: "length (vals inputs) = 2 * batch"
    by (simp add: well_shaped_def num_elements_def)
  have "length (dummy_logits n_atoms x0 x1) = 2 * n_atoms" for x0 x1
    by (simp add: dummy_logits_def)
  then have "length (concat (map (\<lambda>r. dummy_logits n_atoms (f r) (g r)) [0..<m]))
               = m * (2 * n_atoms)" for f g m
    by (induction m) (simp_all add: algebra_simps)
  then have lv: "length v = batch * (2 * n_atoms)" by (simp add: v_def)
  have p: "dense_call l ?x = Inr ?p"
    using a
    by (simp add: dense_call_def l_def weights_initializer_shape on_success_def Let_def
          is_floating_def dummy_dense_vals[OF len] v_def)
  have "tf_reshape ?p (- 1 # map int [2, n_atoms]) = Inr (?p\<lparr>shape := batch # [2, n_atoms]\<rparr>)"
    by (rule reshape_infer) (use a in \<open>simp_all add: num_elements_def\<close>)
  then have rs: "tf_reshape ?p [- 1, 2, int n_atoms]
                   = Inr \<lparr>dtype = float32, shape = [batch, 2, n_atoms], vals = v\<rparr>"
    by simp
  have "snd (DummyCategoricalNet_call net inputs step_type network_state)
          = Inr (\<lparr>dtype = float32, shape = [batch, num_actions net, num_atoms net],
                  vals = v\<rparr>, network_state)"
    by (simp add: DummyCategoricalNet_call_def Let_def snd_and_then net p rs)
  then show "snd (DummyCategoricalNet_call net inputs step_type network_state)
          = Inr (\<lparr>dtype = float32, shape = [batch, num_actions net, num_atoms net],
                  vals = concat (map (\<lambda>r. dummy_logits n_atoms (vals inputs ! (2 * r))
                                             (vals inputs ! (2 * r + 1)))
                                   [0..<batch])\<rparr>, network_state)"
    unfolding v_def .
  from lv show "length (concat (map (\<lambda>r. dummy_logits n_atoms (vals inputs ! (2 * r))
                                         (vals inputs ! (2 * r + 1))) [0..<batch]))
              = batch * num_actions net * num_atoms net"
    unfolding v_def by (simp add: net)
next
  assume b: "snd (super_call rnn observations step network_state) = Inr (logits', state')
        \<and> shape logits' = bs @ [rnn_num_actions rnn * rnn_num_atoms rnn]"
  let ?new = "bs @ [rnn_num_actions rnn, rnn_num_atoms rnn]"
  have "tf_reshape logits' (map int ?new) = Inr (logits'\<lparr>shape := ?new\<rparr>)"
    by (rule reshape_exact) (use b in \<open>simp add: num_elements_def\<close>)
  with b show "snd (DummyCategoricalQRnnNetwork_call rnn observations step network_state)
            = Inr (logits'\<lparr>shape := ?new\<rparr>, state')"
    by (simp add: DummyCategoricalQRnnNetwork_call_def snd_and_then Let_def)
qed

theorem categorical_logits_shape_witness:
  "snd (DummyCategoricalNet_init obs_spec 3 2) = Inr small_dummy_net
     \<and> shape example_inputs = [2, 2] \<and> well_shaped example_inputs \<and> (0::nat) < 3
     \<and> snd (DummyCategoricalNet_call small_dummy_net example_inputs () ())
         = Inr (\<lparr>dtype = float32, shape = [2, 2, 3],
                 vals = [3, 4, 5, 4, 4, 4, 5, 8, 11, 8, 8, 8]\<rparr>, ())
     \<and> snd (super_call example_q_rnn example_inputs () ()) = Inr (q_rnn_logits, ())
     \<and> shape q_rnn_logits = [2] @ [rnn_num_actions example_q_rnn * rnn_num_atoms example_q_rnn]
     \<and> snd (DummyCategoricalQRnnNetwork_call example_q_rnn example_inputs () ())
         = Inr (q_rnn_logits\<lparr>shape := [2, 2, 3]\<rparr>, ())"
proof -
  have h1: "snd (DummyCategoricalNet_init obs_spec 3 2) = Inr small_dummy_net"
    by (simp add: DummyCategoricalNet_init_def Dense_def and_then_events ret_def
          small_dummy_net_def)
  have h2: "shape example_inputs = [2, 2]" "well_shaped example_inputs"
    by (simp_all add: example_inputs_def well_shaped_def num_elements_def)
  have h3: "snd (super_call example_q_rnn example_inputs () ()) = Inr (q_rnn_logits, ())"
    by (simp add: example_q_rnn_def q_rnn_logits_def)
  have h4: "shape q_rnn_logits
              = [2] @ [rnn_num_actions example_q_rnn * rnn_num_atoms example_q_rnn]"
    by (simp add: example_q_rnn_def q_rnn_logits_def)
  have two: "[0..<2] = [0, Suc 0]" and three: "[0..<3] = [0, Suc 0, 2]"
    by (simp_all add: upt_rec)
  have v: "concat (map (\<lambda>r. dummy_logits 3 (vals example_inputs ! (2 * r))
                             (vals example_inputs ! (2 * r + 1))) [0..<2])
             = [3, 4, 5, 4, 4, 4, 5, 8, 11, 8, 8, 8]"
    by (simp add: two three dummy_logits_def example_inputs_def numeral_3_eq_3)
  from categorical_logits_shape[where spec = obs_spec and n_atoms = 3
         and net = small_dummy_net
         and inputs = example_inputs and batch = 2 and step_type = "()"
         and network_state = "()" and rnn = example_q_rnn and observations = example_inputs
         and step = "()" and logits' = q_rnn_logits and state' = "()" and bs = "[2]"]
  show ?thesis using h1 h2 h3 h4 v
    by (simp add: small_dummy_net_def example_q_rnn_def)
qed

subsection \<open>The n-step targets on the experience of the test\<close>





end
